theory Spec2Isabelle
  imports Complex_Main "HOL-Library.Log_Nat" "HOL-Library.AList" "HOL-Library.Char_ord"
    "HOL-Library.List_Lexorder"
begin

text \<open>
  The profit aggregation engine of the Shopify profit app: the daily report of
  \<open>calculateProfit\<close> (profit/calculator.js) with the helpers it composes (order metrics, cost
  matching, gateway fees, fixed-cost amortization, alerts), and the range aggregation of
  \<open>calculateProfitRange\<close>. The functions are translated from the JavaScript source; the
  arithmetic is that of IEEE-754 binary64 and the formatting that of \<open>toFixed\<close> and
  \<open>parseFloat\<close>.
\<close>

section \<open>JavaScript numbers\<close>

text \<open>
  The profit engine computes with JavaScript numbers, that is IEEE-754 binary64 values.
  A finite value is kept as the rational it denotes; the two zeros are identified, which no
  function below can observe: every division has a non-zero constant or a divisor guarded by
  \<open>> 0\<close>, and \<open>toFixed\<close>, the comparisons and \<open>||\<close> treat both zeros alike.
\<close>

datatype jsnum = Num rat | NaN | PInf | NInf

text \<open>\<open>flog2 a\<close> is the binary exponent of a positive rational: \<open>2^e \<le> a < 2^(e+1)\<close>.\<close>

definition flog2 :: "rat \<Rightarrow> int" where
  "flog2 a = (case quotient_of a of (p, q) \<Rightarrow>
     let d = bitlen p - bitlen q
     in if 2 powi d \<le> a then d else d - 1)"

definition roundHalfEven :: "rat \<Rightarrow> int" where
  "roundHalfEven x = (let f = \<lfloor>x\<rfloor>; d = x - of_int f
     in if d < 1 / 2 then f else if 1 / 2 < d then f + 1 else if even f then f else f + 1)"

text \<open>
  \<open>fl\<close> rounds an exact result to the nearest binary64 value, ties to even: 53 significant
  bits, exponents from \<open>-1022\<close> (subnormals share the smallest exponent), overflow to infinity.
\<close>

definition fl :: "rat \<Rightarrow> jsnum" where
  "fl x = (if x = 0 then Num 0 else
     let a = \<bar>x\<bar>;
         e = max (flog2 a) (- 1022);
         u = 2 powi (e - 52);
         r = of_int (roundHalfEven (a / u)) * u
     in if 2 powi 1024 \<le> r then (if x < 0 then NInf else PInf)
        else Num (if x < 0 then - r else r))"

fun jneg :: "jsnum \<Rightarrow> jsnum" where
  "jneg (Num a) = Num (- a)"
| "jneg NaN = NaN"
| "jneg PInf = NInf"
| "jneg NInf = PInf"

fun jadd :: "jsnum \<Rightarrow> jsnum \<Rightarrow> jsnum" where
  "jadd (Num a) (Num b) = fl (a + b)"
| "jadd NaN y = NaN"
| "jadd x NaN = NaN"
| "jadd PInf NInf = NaN"
| "jadd NInf PInf = NaN"
| "jadd PInf y = PInf"
| "jadd x PInf = PInf"
| "jadd NInf y = NInf"
| "jadd x NInf = NInf"

definition jsub :: "jsnum \<Rightarrow> jsnum \<Rightarrow> jsnum" where
  "jsub x y = jadd x (jneg y)"

definition jsign :: "jsnum \<Rightarrow> int" where
  "jsign x = (case x of Num a \<Rightarrow> (if a < 0 then - 1 else if a = 0 then 0 else 1)
      | NaN \<Rightarrow> 0 | PInf \<Rightarrow> 1 | NInf \<Rightarrow> - 1)"

definition jmul :: "jsnum \<Rightarrow> jsnum \<Rightarrow> jsnum" where
  "jmul x y = (case (x, y) of
       (Num a, Num b) \<Rightarrow> fl (a * b)
     | (NaN, _) \<Rightarrow> NaN
     | (_, NaN) \<Rightarrow> NaN
     | _ \<Rightarrow> (if jsign x * jsign y = 0 then NaN
             else if 0 < jsign x * jsign y then PInf else NInf))"

text \<open>A zero divisor is taken as \<open>+0\<close>; the engine never divides by a zero.\<close>

definition jdiv :: "jsnum \<Rightarrow> jsnum \<Rightarrow> jsnum" where
  "jdiv x y = (case (x, y) of
       (NaN, _) \<Rightarrow> NaN
     | (_, NaN) \<Rightarrow> NaN
     | (Num a, Num b) \<Rightarrow>
         (if b = 0 then (if a = 0 then NaN else if 0 < a then PInf else NInf)
          else fl (a / b))
     | (Num a, _) \<Rightarrow> Num 0
     | (_, Num b) \<Rightarrow> (if 0 \<le> b then x else jneg x)
     | _ \<Rightarrow> NaN)"

fun jlt :: "jsnum \<Rightarrow> jsnum \<Rightarrow> bool" where
  "jlt (Num a) (Num b) = (a < b)"
| "jlt NaN y = False"
| "jlt x NaN = False"
| "jlt x NInf = False"
| "jlt PInf y = False"
| "jlt NInf y = True"
| "jlt x PInf = True"

definition jgt :: "jsnum \<Rightarrow> jsnum \<Rightarrow> bool" where
  "jgt x y = jlt y x"

definition jge :: "jsnum \<Rightarrow> jsnum \<Rightarrow> bool" where
  "jge x y = (x \<noteq> NaN \<and> y \<noteq> NaN \<and> \<not> jlt x y)"

text \<open>Truthiness of a number, and the idiom \<open>x || 0\<close>.\<close>

definition truthy :: "jsnum \<Rightarrow> bool" where
  "truthy x = (x \<noteq> NaN \<and> x \<noteq> Num 0)"

definition orZero :: "jsnum \<Rightarrow> jsnum" where
  "orZero x = (if truthy x then x else Num 0)"

section \<open>Numbers as text\<close>

text \<open>
  Strings are sequences of code units below 256. \<open>digitsOf\<close> is the decimal representation of
  a non-negative integer.
\<close>

definition digitChar :: "nat \<Rightarrow> char" where
  "digitChar d = ''0123456789'' ! d"

fun digitsOf :: "nat \<Rightarrow> string" where
  "digitsOf n = (if n < 10 then [digitChar n] else digitsOf (n div 10) @ [digitChar (n mod 10)])"

declare digitsOf.simps [simp del]

text \<open>
  \<open>Number.prototype.toString\<close> for a finite value of at least \<open>10^21\<close>, the only case in which
  \<open>toFixed\<close> falls back to it: the shortest decimal significand \<open>s\<close> of \<open>k\<close> digits with
  \<open>s * 10^(n-k)\<close> rounding to the value (the closest such, at most 17 digits), printed in
  exponent notation.
\<close>

definition roundsTo :: "rat \<Rightarrow> nat \<Rightarrow> nat \<times> nat \<Rightarrow> bool" where
  "roundsTo a k = (\<lambda>(s, n). fl (of_nat s * 10 ^ (n - k)) = Num a)"

definition expCandidates :: "rat \<Rightarrow> nat \<Rightarrow> (nat \<times> nat) list" where
  "expCandidates a k =
     (let n0 = length (digitsOf (nat \<lfloor>a\<rfloor>));
          lo = nat \<lfloor>a / 10 ^ (n0 - k)\<rfloor>;
          up = (if lo + 1 < 10 ^ k then (lo + 1, n0) else (10 ^ (k - 1), n0 + 1))
      in filter (roundsTo a k) [(lo, n0), up])"

definition closest :: "rat \<Rightarrow> nat \<Rightarrow> (nat \<times> nat) list \<Rightarrow> nat \<times> nat" where
  "closest a k cs = (case cs of
       [(s1, n1), (s2, n2)] \<Rightarrow>
          (let d1 = \<bar>of_nat s1 * 10 ^ (n1 - k) - a\<bar>; d2 = \<bar>of_nat s2 * 10 ^ (n2 - k) - a\<bar>
           in if d1 < d2 \<or> (d1 = d2 \<and> even s1) then (s1, n1) else (s2, n2))
     | c # _ \<Rightarrow> c
     | [] \<Rightarrow> (0, 0))"

definition shortestDigits :: "rat \<Rightarrow> nat \<times> nat \<times> nat" where
  "shortestDigits a = (case List.find (\<lambda>k. expCandidates a k \<noteq> []) [1..<17] of
       Some k \<Rightarrow> (k, closest a k (expCandidates a k))
     | None \<Rightarrow> (17, closest a 17 (expCandidates a 17)))"

definition numToStringExp :: "rat \<Rightarrow> string" where
  "numToStringExp a = (case shortestDigits a of (k, s, n) \<Rightarrow>
       (if k = 1 then digitsOf s else take 1 (digitsOf s) @ ''.'' @ drop 1 (digitsOf s))
         @ ''e+'' @ digitsOf (n - 1))"

text \<open>
  \<open>Number.prototype.toFixed(f)\<close>: the sign, then the integer \<open>n\<close> with \<open>n / 10^f\<close> closest to
  the magnitude (the larger one on a tie), padded with zeros to \<open>f + 1\<close> digits, with a point
  before the last \<open>f\<close> digits.
\<close>

definition toFixed :: "nat \<Rightarrow> jsnum \<Rightarrow> string" where
  "toFixed f x = (case x of
       NaN \<Rightarrow> ''NaN''
     | PInf \<Rightarrow> ''Infinity''
     | NInf \<Rightarrow> ''-Infinity''
     | Num r \<Rightarrow>
         (let s = (if r < 0 then ''-'' else ''''); a = \<bar>r\<bar>
          in if 10 ^ 21 \<le> a then s @ numToStringExp a
             else let m = digitsOf (nat \<lfloor>a * 10 ^ f + 1 / 2\<rfloor>);
                      z = replicate (f + 1 - length m) CHR ''0'' @ m
                  in if f = 0 then s @ m
                     else s @ take (length z - f) z @ ''.'' @ drop (length z - f) z))"

text \<open>
  \<open>parseFloat\<close>: skip leading white space, read the longest prefix that is a decimal literal
  (sign, \<open>Infinity\<close> or digits with an optional fraction and exponent), and round its value to
  a number; \<open>NaN\<close> when there is no such prefix.
\<close>

definition isWhite :: "char \<Rightarrow> bool" where
  "isWhite c = (of_char c \<in> {9, 10, 11, 12, 13, 32, 160 :: nat})"

definition isDigit :: "char \<Rightarrow> bool" where
  "isDigit c = (48 \<le> (of_char c :: nat) \<and> (of_char c :: nat) \<le> 57)"

definition natOfDigits :: "string \<Rightarrow> nat" where
  "natOfDigits ds = foldl (\<lambda>n c. 10 * n + (of_char c - 48)) 0 ds"

definition exponentOf :: "string \<Rightarrow> int" where
  "exponentOf r = (case r of
       c # r' \<Rightarrow>
         (if c = CHR ''e'' \<or> c = CHR ''E'' then
            (let neg = (r' \<noteq> [] \<and> hd r' = CHR ''-'');
                 ds = takeWhile isDigit
                        (if r' \<noteq> [] \<and> (hd r' = CHR ''-'' \<or> hd r' = CHR ''+'') then tl r' else r')
             in if neg then - int (natOfDigits ds) else int (natOfDigits ds))
          else 0)
     | [] \<Rightarrow> 0)"

definition parseFloat :: "string \<Rightarrow> jsnum" where
  "parseFloat str =
     (let s1 = dropWhile isWhite str;
          neg = (s1 \<noteq> [] \<and> hd s1 = CHR ''-'');
          s2 = (if s1 \<noteq> [] \<and> (hd s1 = CHR ''-'' \<or> hd s1 = CHR ''+'') then tl s1 else s1)
      in if take 8 s2 = ''Infinity'' then (if neg then NInf else PInf)
         else
           let ip = takeWhile isDigit s2;
               r1 = dropWhile isDigit s2;
               dot = (r1 \<noteq> [] \<and> hd r1 = CHR ''.'');
               fp = (if dot then takeWhile isDigit (tl r1) else []);
               r2 = (if dot then dropWhile isDigit (tl r1) else r1)
           in if ip = [] \<and> fp = [] then NaN
              else
                let v = of_nat (natOfDigits (ip @ fp)) / 10 ^ length fp * 10 powi exponentOf r2
                in fl (if neg then - v else v))"

text \<open>\<open>parseFloat(x.toFixed(2))\<close>, the engine's rounding to two fraction digits.\<close>

definition round2 :: "jsnum \<Rightarrow> jsnum" where
  "round2 x = parseFloat (toFixed 2 x)"

section \<open>Gateway fees (costs/gatewayFees.js, config.js)\<close>

text \<open>
  \<open>String.prototype.toLowerCase\<close> on code units below 256, and the replacement of everything
  outside \<open>a-z\<close> by nothing.
\<close>

definition toLowerCase :: "string \<Rightarrow> string" where
  "toLowerCase s = map (\<lambda>c. let n = (of_char c :: nat)
       in if (65 \<le> n \<and> n \<le> 90) \<or> (192 \<le> n \<and> n \<le> 222 \<and> n \<noteq> 215) then char_of (n + 32) else c) s"

definition stripNonLetters :: "string \<Rightarrow> string" where
  "stripNonLetters s = filter (\<lambda>c. 97 \<le> (of_char c :: nat) \<and> (of_char c :: nat) \<le> 122) s"

text \<open>
  The value \<open>normalizeGatewayName\<close> returns: a name, or the function \<open>Object\<close>. The table
  \<open>mappings\<close> is an object literal, so looking up the key \<open>constructor\<close> finds the property it
  inherits from \<open>Object.prototype\<close>, which is truthy; no other inherited property has a name
  made of the letters \<open>a-z\<close> only.
\<close>

datatype gateway_key = Name string | ObjectConstructor

definition mappings :: "(string \<times> string) list" where
  "mappings =
    [(''shopifypayments'', ''shopify_payments''),
     (''shopify_payments'', ''shopify_payments''),
     (''stripe'', ''stripe''),
     (''paypal'', ''paypal''),
     (''paypalexpress'', ''paypal''),
     (''paypalcommerce'', ''paypal''),
     (''mercadopago'', ''mercadopago''),
     (''mercadopagobasic'', ''mercadopago'')]"

text \<open>The argument \<open>''''\<close> stands for every falsy gateway: the empty string, null, undefined.\<close>

definition normalizeGatewayName :: "string \<Rightarrow> gateway_key" where
  "normalizeGatewayName gateway =
     (if gateway = '''' then Name ''unknown''
      else let lower = stripNonLetters (toLowerCase gateway)
           in case map_of mappings lower of
                Some canonical \<Rightarrow> Name canonical
              | None \<Rightarrow> if lower = ''constructor'' then ObjectConstructor
                        else Name ''shopify_payments'')"

text \<open>
  A second call on the result of the first: a name is normalized again, while the function
  \<open>Object\<close> has no method \<open>toLowerCase\<close> and the call throws.
\<close>

definition normalizeAgain :: "gateway_key \<Rightarrow> string + gateway_key" where
  "normalizeAgain k = (case k of
       Name n \<Rightarrow> Inr (normalizeGatewayName n)
     | ObjectConstructor \<Rightarrow> Inl ''TypeError: gateway.toLowerCase is not a function'')"

record fee_model =
  percentage :: jsnum
  fixed :: jsnum

definition gatewayFees :: "(string \<times> fee_model) list" where
  "gatewayFees =
    [(''shopify_payments'', \<lparr>percentage = fl (29 / 1000), fixed = fl (3 / 10)\<rparr>),
     (''stripe'', \<lparr>percentage = fl (29 / 1000), fixed = fl (3 / 10)\<rparr>),
     (''paypal'', \<lparr>percentage = fl (349 / 10000), fixed = fl (49 / 100)\<rparr>),
     (''mercadopago'', \<lparr>percentage = fl (499 / 10000), fixed = fl 0\<rparr>)]"

text \<open>The property key a normalized gateway becomes when it indexes an object.\<close>

definition propertyKey :: "gateway_key \<Rightarrow> string" where
  "propertyKey k = (case k of Name n \<Rightarrow> n
      | ObjectConstructor \<Rightarrow> ''function Object() { [native code] }'')"

definition getGatewayFees :: "string \<Rightarrow> fee_model" where
  "getGatewayFees gateway =
     (case map_of gatewayFees (propertyKey (normalizeGatewayName gateway)) of
        Some fees \<Rightarrow> fees
      | None \<Rightarrow> \<lparr>percentage = fl (29 / 1000), fixed = fl (3 / 10)\<rparr>)"

definition calculateOrderFee :: "jsnum \<Rightarrow> string \<Rightarrow> jsnum" where
  "calculateOrderFee orderTotal gateway =
     (let fee = jadd (jmul orderTotal (percentage (getGatewayFees gateway)))
                     (fixed (getGatewayFees gateway))
      in round2 fee)"

text \<open>
  An order as the Shopify API delivers it: amounts are decimal strings, an absent field is the
  empty string (both make \<open>parseFloat\<close> return \<open>NaN\<close>), \<open>total_shipping\<close> is
  \<open>total_shipping_price_set.shop_money.amount\<close>; variant ids are integers below \<open>2^53\<close> or null.
\<close>

record line_item =
  variant_id :: "nat option"
  product_id :: "nat option"
  sku :: string
  title :: string
  quantity :: jsnum
  price :: string

record order =
  order_id :: nat
  total_price :: string
  total_tax :: string
  total_shipping :: string
  total_discounts :: string
  gateway :: string
  payment_gateway_names :: "string list"
  line_items :: "line_item list"

record fee_bucket =
  count :: nat
  orderTotal :: jsnum
  bucketFees :: jsnum

text \<open>\<open>order.gateway || order.payment_gateway_names?.[0] || 'shopify_payments'\<close>\<close>

definition orderGateway :: "order \<Rightarrow> string" where
  "orderGateway ord =
     (if gateway ord \<noteq> '''' then gateway ord
      else case payment_gateway_names ord of
             g # _ \<Rightarrow> if g \<noteq> '''' then g else ''shopify_payments''
           | [] \<Rightarrow> ''shopify_payments'')"

text \<open>One pass of the loop of \<open>calculateTotalFees\<close>; the breakdown keeps insertion order.\<close>

definition feeStep :: "(string \<times> fee_bucket) list \<times> jsnum \<Rightarrow> order
    \<Rightarrow> (string \<times> fee_bucket) list \<times> jsnum" where
  "feeStep acc ord = (case acc of (breakdown, totalFees) \<Rightarrow>
     let gw = orderGateway ord;
         amt = orZero (parseFloat (total_price ord));
         fee = calculateOrderFee amt gw;
         normalizedGateway = propertyKey (normalizeGatewayName gw);
         b = (case map_of breakdown normalizedGateway of
                None \<Rightarrow> \<lparr>count = 0, orderTotal = Num 0, bucketFees = Num 0\<rparr>
              | Some b \<Rightarrow> b)
     in (AList.update normalizedGateway
           \<lparr>count = count b + 1, orderTotal = jadd (orderTotal b) amt,
            bucketFees = jadd (bucketFees b) fee\<rparr> breakdown,
         jadd totalFees fee))"

definition calculateTotalFees :: "order list \<Rightarrow> jsnum \<times> (string \<times> fee_bucket) list" where
  "calculateTotalFees orders = (case foldl feeStep ([], Num 0) orders of (breakdown, totalFees) \<Rightarrow>
     (round2 totalFees,
      map (\<lambda>(g, b). (g, b\<lparr>orderTotal := round2 (orderTotal b), bucketFees := round2 (bucketFees b)\<rparr>))
          breakdown))"

section \<open>Fixed costs (costs/fixedCosts.js)\<close>

record fixed_cost =
  description :: string
  amount :: jsnum
  frequency :: string
  active :: bool

record cost_totals =
  daily :: jsnum
  monthly :: jsnum
  yearly :: jsnum

text \<open>One pass of the loop of \<open>calculateTotals\<close>: the switch on the frequency.\<close>

definition costStep :: "cost_totals \<Rightarrow> fixed_cost \<Rightarrow> cost_totals" where
  "costStep totals cost =
     (if \<not> active cost then totals
      else let amt = orZero (amount cost) in
        if frequency cost = ''daily'' then
          \<lparr>daily = jadd (daily totals) amt,
           monthly = jadd (monthly totals) (jmul amt (Num 30)),
           yearly = jadd (yearly totals) (jmul amt (Num 365))\<rparr>
        else if frequency cost = ''weekly'' then
          \<lparr>daily = jadd (daily totals) (jdiv amt (Num 7)),
           monthly = jadd (monthly totals) (jmul amt (fl (433 / 100))),
           yearly = jadd (yearly totals) (jmul amt (Num 52))\<rparr>
        else if frequency cost = ''monthly'' then
          \<lparr>daily = jadd (daily totals) (jdiv amt (Num 30)),
           monthly = jadd (monthly totals) amt,
           yearly = jadd (yearly totals) (jmul amt (Num 12))\<rparr>
        else if frequency cost = ''yearly'' then
          \<lparr>daily = jadd (daily totals) (jdiv amt (Num 365)),
           monthly = jadd (monthly totals) (jdiv amt (Num 12)),
           yearly = jadd (yearly totals) amt\<rparr>
        else totals)"

definition calculateTotals :: "fixed_cost list \<Rightarrow> cost_totals" where
  "calculateTotals costs =
     (let totals = foldl costStep \<lparr>daily = Num 0, monthly = Num 0, yearly = Num 0\<rparr> costs
      in \<lparr>daily = round2 (daily totals), monthly = round2 (monthly totals),
          yearly = round2 (yearly totals)\<rparr>)"

section \<open>Order metrics and line items (shopify/orders.js)\<close>

text \<open>The running sums of \<open>calculateOrderMetrics\<close> and one pass of its loop.\<close>

record order_metrics =
  m_orderCount :: nat
  totalRevenue :: string
  totalTax :: string
  totalShipping :: string
  totalDiscounts :: string
  m_itemsSold :: jsnum
  m_averageOrderValue :: string

record metric_sums =
  sumRevenue :: jsnum
  sumTax :: jsnum
  sumShipping :: jsnum
  sumDiscounts :: jsnum
  sumItems :: jsnum

definition metricsStep :: "metric_sums \<Rightarrow> order \<Rightarrow> metric_sums" where
  "metricsStep s ord =
     \<lparr>sumRevenue = jadd (sumRevenue s) (orZero (parseFloat (total_price ord))),
      sumTax = jadd (sumTax s) (orZero (parseFloat (total_tax ord))),
      sumShipping = jadd (sumShipping s) (orZero (parseFloat (total_shipping ord))),
      sumDiscounts = jadd (sumDiscounts s) (orZero (parseFloat (total_discounts ord))),
      sumItems = foldl (\<lambda>n item. jadd n (orZero (quantity item))) (sumItems s) (line_items ord)\<rparr>"

definition calculateOrderMetrics :: "order list \<Rightarrow> order_metrics" where
  "calculateOrderMetrics orders =
     (let s = foldl metricsStep
                \<lparr>sumRevenue = Num 0, sumTax = Num 0, sumShipping = Num 0,
                 sumDiscounts = Num 0, sumItems = Num 0\<rparr> orders
      in \<lparr>m_orderCount = length orders,
          totalRevenue = toFixed 2 (sumRevenue s),
          totalTax = toFixed 2 (sumTax s),
          totalShipping = toFixed 2 (sumShipping s),
          totalDiscounts = toFixed 2 (sumDiscounts s),
          m_itemsSold = sumItems s,
          m_averageOrderValue =
            (if 0 < length orders
             then toFixed 2 (jdiv (sumRevenue s) (Num (of_nat (length orders))))
             else ''0.00'')\<rparr>)"

record extracted_item =
  orderId :: nat
  variantId :: "nat option"
  productId :: "nat option"
  itemSku :: string
  itemTitle :: string
  itemQuantity :: jsnum
  itemPrice :: jsnum
  totalPrice :: jsnum

definition extractLineItems :: "order list \<Rightarrow> extracted_item list" where
  "extractLineItems orders =
     concat (map (\<lambda>ord. map (\<lambda>item.
         \<lparr>orderId = order_id ord,
          variantId = variant_id item,
          productId = product_id item,
          itemSku = sku item,
          itemTitle = title item,
          itemQuantity = quantity item,
          itemPrice = orZero (parseFloat (price item)),
          totalPrice = jmul (orZero (parseFloat (price item)))
                            (if truthy (quantity item) then quantity item else Num 1)\<rparr>)
       (line_items ord)) orders)"

section \<open>Cost of goods (cogs/manual.js and the matching loop of calculateProfit)\<close>

text \<open>
  \<open>item.variantId?.toString()\<close> as a property key, the distinct truthy variant ids in order of
  first occurrence, and the batches of ten that \<open>getCogsMap\<close> queries. The query is the
  store's answer for one batch of document ids: an error message, or the documents found as
  pairs of id and \<open>cogs\<close> field.
\<close>

definition variantKey :: "nat option \<Rightarrow> string" where
  "variantKey v = (case v of None \<Rightarrow> ''undefined'' | Some n \<Rightarrow> digitsOf n)"

definition uniqueIds :: "nat option list \<Rightarrow> nat list" where
  "uniqueIds vs = foldl (\<lambda>acc v. case v of
        None \<Rightarrow> acc
      | Some n \<Rightarrow> if n = 0 \<or> n \<in> set acc then acc else acc @ [n]) [] vs"

function batches :: "'a list \<Rightarrow> 'a list list" where
  "batches xs = (if xs = [] then [] else take 10 xs # batches (drop 10 xs))"
  by pat_completeness auto
termination
  by (relation "measure length") auto

declare batches.simps [simp del]

fun collectCogs :: "(string list \<Rightarrow> string + (string \<times> jsnum) list) \<Rightarrow> (string \<rightharpoonup> jsnum)
    \<Rightarrow> string list list \<Rightarrow> string + (string \<rightharpoonup> jsnum)" where
  "collectCogs query cogsMap [] = Inr cogsMap"
| "collectCogs query cogsMap (batch # rest) =
     (case query batch of
        Inl err \<Rightarrow> Inl err
      | Inr docs \<Rightarrow>
          collectCogs query (foldl (\<lambda>m (docId, cogs). m(docId \<mapsto> orZero cogs)) cogsMap docs) rest)"

definition getCogsMap :: "(string list \<Rightarrow> string + (string \<times> jsnum) list) \<Rightarrow> nat list
    \<Rightarrow> string + (string \<rightharpoonup> jsnum)" where
  "getCogsMap query variantIds = collectCogs query Map.empty (batches (map digitsOf variantIds))"

record cogs_match =
  totalCogs :: jsnum
  cogsMatchedItems :: nat
  cogsMissingItems :: nat

definition itemCogs :: "(string \<rightharpoonup> jsnum) \<Rightarrow> extracted_item \<Rightarrow> jsnum" where
  "itemCogs cogsMap item = (case cogsMap (variantKey (variantId item)) of
       None \<Rightarrow> Num 0 | Some c \<Rightarrow> orZero c)"

definition cogsStep :: "(string \<rightharpoonup> jsnum) \<Rightarrow> cogs_match \<Rightarrow> extracted_item \<Rightarrow> cogs_match" where
  "cogsStep cogsMap acc item =
     (if jgt (itemCogs cogsMap item) (Num 0)
      then acc\<lparr>totalCogs := jadd (totalCogs acc) (jmul (itemCogs cogsMap item) (itemQuantity item)),
               cogsMatchedItems := cogsMatchedItems acc + 1\<rparr>
      else acc\<lparr>cogsMissingItems := cogsMissingItems acc + 1\<rparr>)"

definition matchCogs :: "(string \<rightharpoonup> jsnum) \<Rightarrow> extracted_item list \<Rightarrow> cogs_match" where
  "matchCogs cogsMap lineItems =
     foldl (cogsStep cogsMap) \<lparr>totalCogs = Num 0, cogsMatchedItems = 0, cogsMissingItems = 0\<rparr> lineItems"

section \<open>Alerts (generateAlerts)\<close>

record alert =
  alertType :: string
  message :: string
  action :: string

record alert_metrics =
  a_cogsMissingItems :: nat
  a_cogsMatchedItems :: nat
  a_lineItems :: nat
  a_profitMargin :: jsnum
  a_adSpend :: jsnum
  a_revenue :: jsnum

definition percentOf :: "nat \<Rightarrow> nat \<Rightarrow> jsnum" where
  "percentOf matched whole = jmul (jdiv (Num (of_nat matched)) (Num (of_nat whole))) (Num 100)"

definition lossAlert :: alert where
  "lossAlert = \<lparr>alertType = ''error'', message = ''You are losing money today'',
                 action = ''Review your costs and pricing strategy''\<rparr>"

definition generateAlerts :: "alert_metrics \<Rightarrow> alert list" where
  "generateAlerts metrics =
     (if 0 < a_lineItems metrics
         \<and> jlt (percentOf (a_cogsMatchedItems metrics) (a_lineItems metrics)) (Num 50)
      then [\<lparr>alertType = ''warning'',
             message = ''Only '' @ toFixed 0 (percentOf (a_cogsMatchedItems metrics) (a_lineItems metrics))
                       @ ''% of products have COGS configured'',
             action = ''Add product costs for accurate profit calculation''\<rparr>]
      else [])
     @ (if jlt (a_profitMargin metrics) (Num 0) then [lossAlert] else [])
     @ (if jgt (a_revenue metrics) (Num 0)
           \<and> jgt (jmul (jdiv (a_adSpend metrics) (a_revenue metrics)) (Num 100)) (Num 30)
        then [\<lparr>alertType = ''warning'',
               message = ''Ad spend is ''
                         @ toFixed 0 (jmul (jdiv (a_adSpend metrics) (a_revenue metrics)) (Num 100))
                         @ ''% of revenue'',
               action = ''Consider optimizing your ad campaigns''\<rparr>]
        else [])
     @ (if jgt (a_profitMargin metrics) (Num 0) \<and> jlt (a_profitMargin metrics) (Num 10)
        then [\<lparr>alertType = ''info'', message = ''Profit margin is below 10%'',
               action = ''Consider increasing prices or reducing costs''\<rparr>]
        else [])"

section \<open>The daily report (calculateProfit, steps 1 to 7)\<close>

text \<open>
  \<open>profitFigures\<close> holds the numbers of step 6, \<open>profitReport\<close> the result object of step 7,
  both from the fetched orders, the cost lookup, the day's ad-spend documents and the daily
  fixed cost.
\<close>

record ad_spend_doc =
  platform :: string
  spend :: jsnum

record profit_report =
  date :: string
  currency :: string
  revenue :: string
  orderCount :: nat
  itemsSold :: jsnum
  averageOrderValue :: string
  cogs :: string
  cogsMatchRate :: string
  adSpend :: string
  adSpendByPlatform :: "(string \<times> jsnum) list"
  fees :: string
  feeBreakdown :: "(string \<times> fee_bucket) list"
  fixedCosts :: string
  grossProfit :: string
  grossMargin :: string
  netProfit :: string
  profitMargin :: string
  isProfitable :: bool
  alerts :: "alert list"

record profit_figures =
  f_revenue :: jsnum
  f_totalCogs :: jsnum
  f_totalAdSpend :: jsnum
  f_totalFees :: jsnum
  f_dailyFixedCosts :: jsnum
  f_grossProfit :: jsnum
  f_netProfit :: jsnum
  f_profitMargin :: jsnum
  f_grossMargin :: jsnum

definition adSpendStep :: "(string \<times> jsnum) list \<times> jsnum \<Rightarrow> ad_spend_doc
    \<Rightarrow> (string \<times> jsnum) list \<times> jsnum" where
  "adSpendStep acc doc = (case acc of (byPlatform, totalAdSpend) \<Rightarrow>
     (AList.update (platform doc) (spend doc) byPlatform, jadd totalAdSpend (orZero (spend doc))))"

definition profitFigures :: "order list \<Rightarrow> (string \<rightharpoonup> jsnum) \<Rightarrow> ad_spend_doc list \<Rightarrow> jsnum
    \<Rightarrow> profit_figures" where
  "profitFigures orders cogsMap adDocs dailyFixedCosts =
     (let rv = parseFloat (totalRevenue (calculateOrderMetrics orders));
          tc = totalCogs (matchCogs cogsMap (extractLineItems orders));
          ads = snd (foldl adSpendStep ([], Num 0) adDocs);
          tf = fst (calculateTotalFees orders);
          gp = jsub rv tc;
          np = jsub (jsub (jsub gp ads) tf) dailyFixedCosts
      in \<lparr>f_revenue = rv, f_totalCogs = tc, f_totalAdSpend = ads, f_totalFees = tf,
          f_dailyFixedCosts = dailyFixedCosts, f_grossProfit = gp, f_netProfit = np,
          f_profitMargin = (if jgt rv (Num 0) then jmul (jdiv np rv) (Num 100) else Num 0),
          f_grossMargin = (if jgt rv (Num 0) then jmul (jdiv gp rv) (Num 100) else Num 0)\<rparr>)"

definition profitReport :: "string \<Rightarrow> string \<Rightarrow> order list \<Rightarrow> (string \<rightharpoonup> jsnum)
    \<Rightarrow> ad_spend_doc list \<Rightarrow> jsnum \<Rightarrow> profit_report" where
  "profitReport targetDate shopCurrency orders cogsMap adDocs dailyFixedCosts =
     (let orderMetrics = calculateOrderMetrics orders;
          lineItems = extractLineItems orders;
          cm = matchCogs cogsMap lineItems;
          fig = profitFigures orders cogsMap adDocs dailyFixedCosts
      in \<lparr>date = targetDate,
          currency = (if shopCurrency \<noteq> '''' then shopCurrency else ''USD''),
          revenue = toFixed 2 (f_revenue fig),
          orderCount = length orders,
          itemsSold = m_itemsSold orderMetrics,
          averageOrderValue = m_averageOrderValue orderMetrics,
          cogs = toFixed 2 (f_totalCogs fig),
          cogsMatchRate =
            (if 0 < length lineItems
             then toFixed 1 (percentOf (cogsMatchedItems cm) (length lineItems))
             else ''100''),
          adSpend = toFixed 2 (f_totalAdSpend fig),
          adSpendByPlatform = fst (foldl adSpendStep ([], Num 0) adDocs),
          fees = toFixed 2 (f_totalFees fig),
          feeBreakdown = snd (calculateTotalFees orders),
          fixedCosts = toFixed 2 (f_dailyFixedCosts fig),
          grossProfit = toFixed 2 (f_grossProfit fig),
          grossMargin = toFixed 1 (f_grossMargin fig),
          netProfit = toFixed 2 (f_netProfit fig),
          profitMargin = toFixed 1 (f_profitMargin fig),
          isProfitable = jge (f_netProfit fig) (Num 0),
          alerts = generateAlerts
            \<lparr>a_cogsMissingItems = cogsMissingItems cm,
             a_cogsMatchedItems = cogsMatchedItems cm,
             a_lineItems = length lineItems,
             a_profitMargin = f_profitMargin fig,
             a_adSpend = f_totalAdSpend fig,
             a_revenue = f_revenue fig\<rparr>\<rparr>)"

section \<open>Collaborators and the report store\<close>

text \<open>
  What the engine fetches is given by an environment: each field is the answer of one
  collaborator, an error message (\<open>Inl\<close>) when the call throws. The report store
  \<open>dailyMetrics\<close> is kept as state, documents keyed by shop and date, together with the log of
  the operations issued against it. A write with \<open>merge: true\<close> replaces the fields written
  and merges the two map-valued fields key by key.
\<close>

record shop_data =
  accessToken :: string
  shopCurrency :: string

record dated_spend =
  spendDate :: string
  spendDoc :: ad_spend_doc

record env =
  verifyShop :: "string \<Rightarrow> string + shop_data option"
  fetchOrdersForDate :: "string \<Rightarrow> string \<Rightarrow> string \<Rightarrow> string + order list"
  productCosts :: "string \<Rightarrow> string list \<Rightarrow> string + (string \<times> jsnum) list"
  adSpendDaily :: "string \<Rightarrow> string + dated_spend list"
  fixedCostDocs :: "string \<Rightarrow> string + fixed_cost list"
  dailyMetricsFault :: "string option"

record clock =
  today :: string
  serverTimestamp :: nat

record day_doc =
  doc :: profit_report
  calculatedAt :: nat

datatype store_op = QueryDays string string string | SetDay string string

record store =
  days :: "((string \<times> string) \<times> day_doc) list"
  ops :: "store_op list"

datatype https_error = HttpsError string string

definition mergeMap :: "(string \<times> 'v) list \<Rightarrow> (string \<times> 'v) list \<Rightarrow> (string \<times> 'v) list" where
  "mergeMap old new = (if new = [] then [] else foldl (\<lambda>m (k, v). AList.update k v m) old new)"

definition mergeDay :: "day_doc option \<Rightarrow> profit_report \<Rightarrow> nat \<Rightarrow> day_doc" where
  "mergeDay old r t = (case old of
       None \<Rightarrow> \<lparr>doc = r, calculatedAt = t\<rparr>
     | Some d \<Rightarrow>
         \<lparr>doc = r\<lparr>adSpendByPlatform := mergeMap (adSpendByPlatform (doc d)) (adSpendByPlatform r),
                  feeBreakdown := mergeMap (feeBreakdown (doc d)) (feeBreakdown r)\<rparr>,
          calculatedAt = t\<rparr>)"

definition setDay :: "env \<Rightarrow> clock \<Rightarrow> store \<Rightarrow> string \<Rightarrow> string \<Rightarrow> profit_report
    \<Rightarrow> string + store" where
  "setDay e clk st shopDomain targetDate r =
     (case dailyMetricsFault e of
        Some err \<Rightarrow> Inl err
      | None \<Rightarrow>
          Inr \<lparr>days = AList.update (shopDomain, targetDate)
                        (mergeDay (map_of (days st) (shopDomain, targetDate)) r (serverTimestamp clk))
                        (days st),
               ops = ops st @ [SetDay shopDomain targetDate]\<rparr>)"

definition getDailyFixedCost :: "env \<Rightarrow> string \<Rightarrow> string + jsnum" where
  "getDailyFixedCost e shopDomain =
     (case fixedCostDocs e shopDomain of
        Inl err \<Rightarrow> Inl err
      | Inr costs \<Rightarrow> Inr (daily (calculateTotals (filter active costs))))"

text \<open>
  \<open>isValidDate\<close> (utils/validators.js): a string of four digits, a hyphen, two digits, a
  hyphen and two digits, which the runtime's \<open>Date\<close> parses; for this format that is a month
  from 01 to 12 and a day from 01 to 31.
\<close>

definition isValidDate :: "string \<Rightarrow> bool" where
  "isValidDate d =
     (length d = 10
      \<and> list_all isDigit (take 4 d) \<and> d ! 4 = CHR ''-''
      \<and> list_all isDigit (take 2 (drop 5 d)) \<and> d ! 7 = CHR ''-''
      \<and> list_all isDigit (drop 8 d)
      \<and> 1 \<le> natOfDigits (take 2 (drop 5 d)) \<and> natOfDigits (take 2 (drop 5 d)) \<le> 12
      \<and> 1 \<le> natOfDigits (drop 8 d) \<and> natOfDigits (drop 8 d) \<le> 31)"

section \<open>calculateProfit\<close>

text \<open>
  \<open>targetDateOf\<close> is \<open>date || new Date().toISOString().split('T')[0]\<close>; \<open>profitSteps\<close> is the
  body of the try block, whose errors the catch clause rethrows as \<open>internal\<close>.
\<close>

definition targetDateOf :: "clock \<Rightarrow> string \<Rightarrow> string" where
  "targetDateOf clk dateArg = (if dateArg \<noteq> '''' then dateArg else today clk)"


definition profitSteps :: "env \<Rightarrow> clock \<Rightarrow> store \<Rightarrow> string \<Rightarrow> string
    \<Rightarrow> (string + profit_report) \<times> store" where
  "profitSteps e clk st shopDomain targetDate =
     (case verifyShop e shopDomain of
        Inl err \<Rightarrow> (Inl err, st)
      | Inr None \<Rightarrow> (Inl ''Shop not found or not authenticated'', st)
      | Inr (Some shopData) \<Rightarrow>
     (case fetchOrdersForDate e shopDomain (accessToken shopData) targetDate of
        Inl err \<Rightarrow> (Inl err, st)
      | Inr orders \<Rightarrow>
     (case getCogsMap (productCosts e shopDomain)
             (uniqueIds (map variantId (extractLineItems orders))) of
        Inl err \<Rightarrow> (Inl err, st)
      | Inr cogsMap \<Rightarrow>
     (case adSpendDaily e shopDomain of
        Inl err \<Rightarrow> (Inl err, st)
      | Inr spends \<Rightarrow>
     (case getDailyFixedCost e shopDomain of
        Inl err \<Rightarrow> (Inl err, st)
      | Inr dailyFixedCosts \<Rightarrow>
          (let result = profitReport targetDate (shopCurrency shopData) orders cogsMap
                          (map spendDoc (filter (\<lambda>s. spendDate s = targetDate) spends))
                          dailyFixedCosts
           in (case setDay e clk st shopDomain targetDate result of
                 Inl err \<Rightarrow> (Inl err, st\<lparr>ops := ops st @ [SetDay shopDomain targetDate]\<rparr>)
               | Inr st' \<Rightarrow> (Inr result, st'))))))))"

definition calculateProfit :: "env \<Rightarrow> clock \<Rightarrow> store \<Rightarrow> string option \<Rightarrow> string
    \<Rightarrow> (https_error + profit_report) \<times> store" where
  "calculateProfit e clk st auth dateArg =
     (case auth of
        None \<Rightarrow> (Inl (HttpsError ''unauthenticated'' ''Must be authenticated''), st)
      | Some shopDomain \<Rightarrow>
          (let targetDate = targetDateOf clk dateArg
           in if \<not> isValidDate targetDate
              then (Inl (HttpsError ''invalid-argument'' ''Invalid date format. Use YYYY-MM-DD''), st)
              else (case profitSteps e clk st shopDomain targetDate of
                      (Inl err, st') \<Rightarrow>
                         (Inl (HttpsError ''internal'' (''Calculation failed: '' @ err)), st')
                    | (Inr result, st') \<Rightarrow> (Inr result, st'))))"

section \<open>calculateProfitRange\<close>

text \<open>
  The query reads the shop's documents whose \<open>date\<close> lies between the two bounds in the
  order of strings, sorted by date.
\<close>

record range_sums =
  s_revenue :: jsnum
  s_cogs :: jsnum
  s_adSpend :: jsnum
  s_fees :: jsnum
  s_fixedCosts :: jsnum
  s_netProfit :: jsnum
  s_orderCount :: nat

record range_totals =
  t_revenue :: string
  t_cogs :: string
  t_adSpend :: string
  t_fees :: string
  t_fixedCosts :: string
  t_netProfit :: string
  t_profitMargin :: string
  t_orderCount :: nat
  t_isProfitable :: bool

record range_result =
  startDate :: string
  endDate :: string
  daysCount :: nat
  rangeDays :: "day_doc list"
  totals :: range_totals

definition rangeStep :: "range_sums \<Rightarrow> day_doc \<Rightarrow> range_sums" where
  "rangeStep s day =
     \<lparr>s_revenue = jadd (s_revenue s) (orZero (parseFloat (revenue (doc day)))),
      s_cogs = jadd (s_cogs s) (orZero (parseFloat (cogs (doc day)))),
      s_adSpend = jadd (s_adSpend s) (orZero (parseFloat (adSpend (doc day)))),
      s_fees = jadd (s_fees s) (orZero (parseFloat (fees (doc day)))),
      s_fixedCosts = jadd (s_fixedCosts s) (orZero (parseFloat (fixedCosts (doc day)))),
      s_netProfit = jadd (s_netProfit s) (orZero (parseFloat (netProfit (doc day)))),
      s_orderCount = s_orderCount s + orderCount (doc day)\<rparr>"

definition aggregate :: "string \<Rightarrow> string \<Rightarrow> day_doc list \<Rightarrow> range_result" where
  "aggregate startD endD ds =
     (let s = foldl rangeStep
                \<lparr>s_revenue = Num 0, s_cogs = Num 0, s_adSpend = Num 0, s_fees = Num 0,
                 s_fixedCosts = Num 0, s_netProfit = Num 0, s_orderCount = 0\<rparr> ds;
          margin = (if jgt (s_revenue s) (Num 0)
                    then jmul (jdiv (s_netProfit s) (s_revenue s)) (Num 100) else Num 0)
      in \<lparr>startDate = startD, endDate = endD, daysCount = length ds, rangeDays = ds,
          totals = \<lparr>t_revenue = toFixed 2 (s_revenue s),
                    t_cogs = toFixed 2 (s_cogs s),
                    t_adSpend = toFixed 2 (s_adSpend s),
                    t_fees = toFixed 2 (s_fees s),
                    t_fixedCosts = toFixed 2 (s_fixedCosts s),
                    t_netProfit = toFixed 2 (s_netProfit s),
                    t_profitMargin = toFixed 1 margin,
                    t_orderCount = s_orderCount s,
                    t_isProfitable = jge (s_netProfit s) (Num 0)\<rparr>\<rparr>)"

definition queryDays :: "store \<Rightarrow> string \<Rightarrow> string \<Rightarrow> string \<Rightarrow> day_doc list" where
  "queryDays st shopDomain startD endD =
     sort_key (\<lambda>d. date (doc d))
       (map snd (filter (\<lambda>(k, d). fst k = shopDomain
                           \<and> startD \<le> date (doc d) \<and> date (doc d) \<le> endD) (days st)))"

definition calculateProfitRange :: "env \<Rightarrow> store \<Rightarrow> string option \<Rightarrow> string \<Rightarrow> string
    \<Rightarrow> (https_error + range_result) \<times> store" where
  "calculateProfitRange e st auth startD endD =
     (case auth of
        None \<Rightarrow> (Inl (HttpsError ''unauthenticated'' ''Must be authenticated''), st)
      | Some shopDomain \<Rightarrow>
          if \<not> isValidDate startD \<or> \<not> isValidDate endD
          then (Inl (HttpsError ''invalid-argument'' ''Invalid date format''), st)
          else (case dailyMetricsFault e of
                  Some err \<Rightarrow> (Inl (HttpsError ''internal'' err),
                                st\<lparr>ops := ops st @ [QueryDays shopDomain startD endD]\<rparr>)
                | None \<Rightarrow> (Inr (aggregate startD endD (queryDays st shopDomain startD endD)),
                            st\<lparr>ops := ops st @ [QueryDays shopDomain startD endD]\<rparr>)))"

section \<open>The specification's reading of the matching, of the rounding and of the tables\<close>

text \<open>
  The cost lookup of the specification maps a variant id to a cost per unit. A line item is
  matched when it has a variant id for which the lookup holds a cost greater than zero; a
  matched item contributes \<open>cost * quantity\<close>; the coverage rate is \<open>matched / total * 100\<close>,
  printed, or 100 when there is no line item.
\<close>

definition hasCost :: "(nat \<rightharpoonup> jsnum) \<Rightarrow> extracted_item \<Rightarrow> bool" where
  "hasCost costs item = (case variantId item of
       None \<Rightarrow> False
     | Some n \<Rightarrow> (case costs n of None \<Rightarrow> False | Some c \<Rightarrow> jgt c (Num 0)))"

definition costOfItem :: "(nat \<rightharpoonup> jsnum) \<Rightarrow> extracted_item \<Rightarrow> jsnum" where
  "costOfItem costs item = (case variantId item of
       None \<Rightarrow> Num 0
     | Some n \<Rightarrow> (case costs n of None \<Rightarrow> Num 0 | Some c \<Rightarrow> jmul c (itemQuantity item)))"

definition specMatchRate :: "nat \<Rightarrow> nat \<Rightarrow> string" where
  "specMatchRate matched whole =
     (if whole = 0 then ''100''
      else toFixed 1 (jmul (jdiv (Num (of_nat matched)) (Num (of_nat whole))) (Num 100)))"

text \<open>
  Rounding to two fraction digits, as arithmetic: a finite number below \<open>10^21\<close> in magnitude
  becomes the number nearest to \<open>n / 100\<close>, where \<open>n\<close> is its magnitude times 100 rounded to an
  integer, halves upwards, with its sign; \<open>NaN\<close> and the infinities stay. From \<open>10^21\<close> on,
  where every number is an integer, the number is read back from its exponent notation.
\<close>

definition roundCents :: "jsnum \<Rightarrow> jsnum" where
  "roundCents x = (case x of
       Num r \<Rightarrow>
         (if \<bar>r\<bar> < 10 ^ 21
          then fl ((if r < 0 then - 1 else 1) * of_nat (nat \<lfloor>\<bar>r\<bar> * 100 + 1 / 2\<rfloor>) / 100)
          else parseFloat ((if r < 0 then ''-'' else '''') @ numToStringExp \<bar>r\<bar>))
     | NaN \<Rightarrow> NaN
     | PInf \<Rightarrow> PInf
     | NInf \<Rightarrow> NInf)"

text \<open>
  The number of fraction digits of a decimal string: the length of what follows its point,
  when that consists of digits.
\<close>

definition fractionDigits :: "string \<Rightarrow> nat option" where
  "fractionDigits s = (case dropWhile (\<lambda>c. c \<noteq> CHR ''.'') s of
       [] \<Rightarrow> None
     | c # fp \<Rightarrow> if list_all isDigit fp then Some (length fp) else None)"

text \<open>
  The conversion table of the cost normalizer, one function per column, the entries that
  count, and the totals: each column summed over the counted entries and rounded once.
\<close>

definition knownFrequency :: "string \<Rightarrow> bool" where
  "knownFrequency f = (f = ''daily'' \<or> f = ''weekly'' \<or> f = ''monthly'' \<or> f = ''yearly'')"

definition toDaily :: "fixed_cost \<Rightarrow> jsnum" where
  "toDaily c = (let a = orZero (amount c) in
     if frequency c = ''daily'' then a
     else if frequency c = ''weekly'' then jdiv a (Num 7)
     else if frequency c = ''monthly'' then jdiv a (Num 30)
     else jdiv a (Num 365))"

definition toMonthly :: "fixed_cost \<Rightarrow> jsnum" where
  "toMonthly c = (let a = orZero (amount c) in
     if frequency c = ''daily'' then jmul a (Num 30)
     else if frequency c = ''weekly'' then jmul a (fl (433 / 100))
     else if frequency c = ''monthly'' then a
     else jdiv a (Num 12))"

definition toYearly :: "fixed_cost \<Rightarrow> jsnum" where
  "toYearly c = (let a = orZero (amount c) in
     if frequency c = ''daily'' then jmul a (Num 365)
     else if frequency c = ''weekly'' then jmul a (Num 52)
     else if frequency c = ''monthly'' then jmul a (Num 12)
     else a)"

definition counted :: "fixed_cost \<Rightarrow> bool" where
  "counted c = (active c \<and> knownFrequency (frequency c))"

definition specTotals :: "fixed_cost list \<Rightarrow> cost_totals" where
  "specTotals costs =
     \<lparr>daily = roundCents (foldl jadd (Num 0) (map toDaily (filter counted costs))),
      monthly = roundCents (foldl jadd (Num 0) (map toMonthly (filter counted costs))),
      yearly = roundCents (foldl jadd (Num 0) (map toYearly (filter counted costs)))\<rparr>"

text \<open>
  The fee table of the specification, by canonical gateway: 3.49 percent plus 0.49 for paypal,
  4.99 percent for mercadopago, 2.9 percent plus 0.30 for stripe, for shopify_payments and for
  whatever else normalization returns. The fee of an order is \<open>total * percentage + fixed\<close>,
  rounded to two fraction digits.
\<close>

definition feeTable :: "gateway_key \<Rightarrow> fee_model" where
  "feeTable k =
     (if k = Name ''paypal'' then \<lparr>percentage = fl (349 / 10000), fixed = fl (49 / 100)\<rparr>
      else if k = Name ''mercadopago'' then \<lparr>percentage = fl (499 / 10000), fixed = Num 0\<rparr>
      else \<lparr>percentage = fl (29 / 1000), fixed = fl (3 / 10)\<rparr>)"

definition specOrderFee :: "jsnum \<Rightarrow> gateway_key \<Rightarrow> jsnum" where
  "specOrderFee amt k = roundCents (jadd (jmul amt (percentage (feeTable k))) (fixed (feeTable k)))"

text \<open>A gateway name is a known alias when its normalized form is a key of \<open>mappings\<close>.\<close>

definition gatewayAlias :: "string \<Rightarrow> bool" where
  "gatewayAlias g = (stripNonLetters (toLowerCase g) \<in> set (map fst mappings))"

section \<open>Example inputs\<close>

text \<open>A shop with no orders and no ad spend on the day, and one daily fixed cost of 10.\<close>

definition lossEnv :: env where
  "lossEnv =
     \<lparr>verifyShop = (\<lambda>shopDomain. Inr (Some \<lparr>accessToken = ''token'', shopCurrency = ''USD''\<rparr>)),
      fetchOrdersForDate = (\<lambda>shopDomain token d. Inr []),
      productCosts = (\<lambda>shopDomain ids. Inr []),
      adSpendDaily = (\<lambda>shopDomain. Inr []),
      fixedCostDocs = (\<lambda>shopDomain. Inr [\<lparr>description = ''rent'', amount = Num 10,
                                            frequency = ''daily'', active = True\<rparr>]),
      dailyMetricsFault = None\<rparr>"

text \<open>The same shop when the order fetch fails, and a shop whose cost lookup fails.\<close>

definition ordersDownEnv :: env where
  "ordersDownEnv =
     lossEnv\<lparr>fetchOrdersForDate := (\<lambda>shopDomain token d. Inl ''Failed to fetch orders: timeout'')\<rparr>"

definition sampleOrder :: order where
  "sampleOrder =
     \<lparr>order_id = 1, total_price = ''100.00'', total_tax = ''0.00'', total_shipping = '''',
      total_discounts = ''0.00'', gateway = ''stripe'', payment_gateway_names = [''stripe''],
      line_items = [\<lparr>variant_id = Some 42, product_id = Some 7, sku = ''A-1'', title = ''Mug'',
                     quantity = Num 2, price = ''50.00''\<rparr>]\<rparr>"

definition cogsDownEnv :: env where
  "cogsDownEnv =
     lossEnv\<lparr>fetchOrdersForDate := (\<lambda>shopDomain token d. Inr [sampleOrder]),
             productCosts := (\<lambda>shopDomain ids. Inl ''productCosts unavailable'')\<rparr>"

definition sampleClock :: clock where
  "sampleClock = \<lparr>today = ''2024-01-02'', serverTimestamp = 1704153600\<rparr>"

definition laterClock :: clock where
  "laterClock = \<lparr>today = ''2024-01-05'', serverTimestamp = 1704412800\<rparr>"

text \<open>
  A store with reports of shop a for 1, 3 and 4 January and one of shop b: revenue 100 and 200
  and net profit 10 and -5 on the two days of shop a that fall into the first three days.
\<close>

definition sampleReport :: "string \<Rightarrow> string \<Rightarrow> string \<Rightarrow> profit_report" where
  "sampleReport d rv net =
     \<lparr>date = d, currency = ''USD'', revenue = rv, orderCount = 1, itemsSold = Num 1,
      averageOrderValue = rv, cogs = ''0.00'', cogsMatchRate = ''100'', adSpend = ''0.00'',
      adSpendByPlatform = [], fees = ''0.00'', feeBreakdown = [], fixedCosts = ''0.00'',
      grossProfit = rv, grossMargin = ''100.0'', netProfit = net, profitMargin = ''0.0'',
      isProfitable = True, alerts = []\<rparr>"

definition firstDay :: day_doc where
  "firstDay = \<lparr>doc = sampleReport ''2024-01-01'' ''100.00'' ''10.00'', calculatedAt = 1\<rparr>"

definition thirdDay :: day_doc where
  "thirdDay = \<lparr>doc = sampleReport ''2024-01-03'' ''200.00'' ''-5.00'', calculatedAt = 2\<rparr>"

definition sampleStore :: store where
  "sampleStore =
     \<lparr>days = [((''a.myshopify.com'', ''2024-01-03''), thirdDay),
               ((''b.myshopify.com'', ''2024-01-02''),
                 \<lparr>doc = sampleReport ''2024-01-02'' ''999.00'' ''999.00'', calculatedAt = 3\<rparr>),
               ((''a.myshopify.com'', ''2024-01-01''), firstDay),
               ((''a.myshopify.com'', ''2024-01-04''),
                 \<lparr>doc = sampleReport ''2024-01-04'' ''400.00'' ''40.00'', calculatedAt = 4\<rparr>)],
      ops = []\<rparr>"

definition emptyStore :: store where
  "emptyStore = \<lparr>days = [], ops = []\<rparr>"

text \<open>
  A day with one order of 100.00 paid through stripe: two mugs of variant 42, a gift wrap
  without variant id and three pens of variant 7. The product costs hold 12 for variant 42, 0
  for variant 7 and 5 for a variant 8 that was not sold; the ad spend of the day is 20 on
  facebook and 15 on google, next to an entry of the day before; the rent is 10 a day.
  \<open>busyCosts\<close> is the lookup object that \<open>getCogsMap\<close> builds on this day, \<open>busyLookup\<close> the
  cost lookup it stands for.
\<close>

definition mixedOrder :: order where
  "mixedOrder =
     \<lparr>order_id = 1001, total_price = ''100.00'', total_tax = ''8.00'', total_shipping = ''5.00'',
      total_discounts = ''0.00'', gateway = ''stripe'', payment_gateway_names = [''stripe''],
      line_items =
        [\<lparr>variant_id = Some 42, product_id = Some 7, sku = ''MUG-1'', title = ''Mug'',
          quantity = Num 2, price = ''30.00''\<rparr>,
         \<lparr>variant_id = None, product_id = None, sku = '''', title = ''Gift wrap'',
          quantity = Num 1, price = ''12.00''\<rparr>,
         \<lparr>variant_id = Some 7, product_id = Some 3, sku = ''PEN-1'', title = ''Pen'',
          quantity = Num 3, price = ''5.00''\<rparr>]\<rparr>"

definition busyCosts :: "string \<rightharpoonup> jsnum" where
  "busyCosts = [''42'' \<mapsto> Num 12, ''7'' \<mapsto> Num 0]"

definition busyLookup :: "nat \<rightharpoonup> jsnum" where
  "busyLookup = [42 \<mapsto> Num 12, 7 \<mapsto> Num 0]"

definition busyAds :: "ad_spend_doc list" where
  "busyAds = [\<lparr>platform = ''facebook'', spend = Num 20\<rparr>, \<lparr>platform = ''google'', spend = Num 15\<rparr>]"

definition busyEnv :: env where
  "busyEnv =
     \<lparr>verifyShop = (\<lambda>shopDomain. Inr (Some \<lparr>accessToken = ''token'', shopCurrency = ''USD''\<rparr>)),
      fetchOrdersForDate = (\<lambda>shopDomain token d. if d = ''2024-01-02'' then Inr [mixedOrder] else Inr []),
      productCosts = (\<lambda>shopDomain ids. Inr (filter (\<lambda>(k, c). k \<in> set ids)
                         [(''42'', Num 12), (''7'', Num 0), (''8'', Num 5)])),
      adSpendDaily = (\<lambda>shopDomain. Inr
         [\<lparr>spendDate = ''2024-01-02'', spendDoc = \<lparr>platform = ''facebook'', spend = Num 20\<rparr>\<rparr>,
          \<lparr>spendDate = ''2024-01-01'', spendDoc = \<lparr>platform = ''facebook'', spend = Num 99\<rparr>\<rparr>,
          \<lparr>spendDate = ''2024-01-02'', spendDoc = \<lparr>platform = ''google'', spend = Num 15\<rparr>\<rparr>]),
      fixedCostDocs = (\<lambda>shopDomain. Inr [\<lparr>description = ''rent'', amount = Num 10,
                                            frequency = ''daily'', active = True\<rparr>]),
      dailyMetricsFault = None\<rparr>"

text \<open>
  Fixed costs: one weekly entry of 10; and two weekly entries of 1 among an inactive entry and
  an entry with a frequency outside the table.
\<close>

definition weeklyTen :: "fixed_cost list" where
  "weeklyTen = [\<lparr>description = ''ads tool'', amount = Num 10, frequency = ''weekly'', active = True\<rparr>]"

definition mixedCosts :: "fixed_cost list" where
  "mixedCosts =
     [\<lparr>description = ''newsletter'', amount = Num 1, frequency = ''weekly'', active = True\<rparr>,
      \<lparr>description = ''old plan'', amount = Num 5, frequency = ''daily'', active = False\<rparr>,
      \<lparr>description = ''audit'', amount = Num 7, frequency = ''quarterly'', active = True\<rparr>,
      \<lparr>description = ''hosting'', amount = Num 1, frequency = ''weekly'', active = True\<rparr>]"

section \<open>Rounding to binary64\<close>

text \<open>
  \<open>flog2\<close> is the binary exponent; hence \<open>fl\<close> of a value in a normal binade is the nearest
  multiple of the binade's unit, and every integer below \<open>2^53\<close> in magnitude is a number.
\<close>

lemma powi_pos: "0 < (2::rat) powi e"
  by (simp add: zero_less_power_int)

lemma powi_le: "a \<le> b \<Longrightarrow> (2::rat) powi a \<le> 2 powi b"
  by (simp add: power_int_increasing)

lemma powi_less: "a < b \<Longrightarrow> (2::rat) powi a < 2 powi b"
  by (simp add: power_int_strict_increasing)

lemma powi_add: "(2::rat) powi (a + b) = 2 powi a * 2 powi b"
  by (simp add: power_int_add)

lemma flog2_bounds:
  assumes "0 < a"
  shows "2 powi flog2 a \<le> a \<and> a < 2 powi (flog2 a + 1)"
proof -
  obtain p q where pq: "quotient_of a = (p, q)" by (cases "quotient_of a")
  have q: "0 < q" using pq quotient_of_denom_pos by blast
  have a: "a = of_int p / of_int q" using pq quotient_of_div by blast
  have p: "0 < p" using assms q a by (simp add: zero_less_divide_iff)
  let ?d = "bitlen p - bitlen q"
  have bp: "2 ^ nat (bitlen p - 1) \<le> p" "p < 2 ^ nat (bitlen p)"
    using bitlen_bounds [OF p] by simp_all
  have bq: "2 ^ nat (bitlen q - 1) \<le> q" "q < 2 ^ nat (bitlen q)"
    using bitlen_bounds [OF q] by simp_all
  have lp: "1 \<le> bitlen p" using p bitlen_eq_zero_iff [of p] bitlen_nonneg [of p] by linarith
  have lq: "1 \<le> bitlen q" using q bitlen_eq_zero_iff [of q] bitlen_nonneg [of q] by linarith
  have P1: "(2::rat) powi (bitlen p - 1) \<le> of_int p"
  proof -
    have "(of_int (2 ^ nat (bitlen p - 1)) :: rat) \<le> of_int p" using bp(1) of_int_le_iff by blast
    then show ?thesis using lp by (simp add: power_int_def)
  qed
  have P2: "of_int p < (2::rat) powi (bitlen p)"
  proof -
    have "(of_int p :: rat) < of_int (2 ^ nat (bitlen p))" using bp(2) of_int_less_iff by blast
    then show ?thesis using lp by (simp add: power_int_def)
  qed
  have Q1: "(2::rat) powi (bitlen q - 1) \<le> of_int q"
  proof -
    have "(of_int (2 ^ nat (bitlen q - 1)) :: rat) \<le> of_int q" using bq(1) of_int_le_iff by blast
    then show ?thesis using lq by (simp add: power_int_def)
  qed
  have Q2: "of_int q < (2::rat) powi (bitlen q)"
  proof -
    have "(of_int q :: rat) < of_int (2 ^ nat (bitlen q))" using bq(2) of_int_less_iff by blast
    then show ?thesis using lq by (simp add: power_int_def)
  qed
  have qpos: "(0::rat) < of_int q" using q by simp
  have up: "a < 2 powi (?d + 1)"
  proof -
    have "of_int p < (2::rat) powi (bitlen p)" by (rule P2)
    also have "\<dots> = 2 powi (?d + 1) * 2 powi (bitlen q - 1)"
      by (simp add: power_int_add [symmetric])
    also have "\<dots> \<le> 2 powi (?d + 1) * of_int q"
      using Q1 powi_pos [of "?d + 1"] by (simp add: mult_left_mono)
    finally show ?thesis using qpos a by (simp add: pos_divide_less_eq)
  qed
  have lo: "2 powi (?d - 1) \<le> a"
  proof -
    have "2 powi (?d - 1) * of_int q \<le> 2 powi (?d - 1) * (2::rat) powi (bitlen q)"
      using Q2 powi_pos [of "?d - 1"] by (simp add: mult_left_mono)
    also have "\<dots> = 2 powi (bitlen p - 1)"
      by (simp add: power_int_add [symmetric])
    also have "\<dots> \<le> of_int p" by (rule P1)
    finally show ?thesis using qpos a by (simp add: pos_le_divide_eq)
  qed
  show ?thesis
  proof (cases "2 powi ?d \<le> a")
    case True
    then have "flog2 a = ?d" using pq by (simp add: flog2_def)
    with True up show ?thesis by simp
  next
    case False
    then have "flog2 a = ?d - 1" using pq by (simp add: flog2_def)
    with False lo show ?thesis by simp
  qed
qed

lemma flog2_unique:
  assumes "0 < a" "2 powi e \<le> a" "a < 2 powi (e + 1)"
  shows "flog2 a = e"
proof -
  have b: "2 powi flog2 a \<le> a" "a < 2 powi (flog2 a + 1)"
    using flog2_bounds [OF assms(1)] by simp_all
  have "\<not> flog2 a < e"
  proof
    assume "flog2 a < e"
    then have "(2::rat) powi (flog2 a + 1) \<le> 2 powi e" by (intro powi_le) simp
    with b(2) assms(2) show False by simp
  qed
  moreover have "\<not> e < flog2 a"
  proof
    assume "e < flog2 a"
    then have "(2::rat) powi (e + 1) \<le> 2 powi flog2 a" by (intro powi_le) simp
    with b(1) assms(3) show False by simp
  qed
  ultimately show ?thesis by simp
qed

lemma roundHalfEven_le: "of_int (roundHalfEven x) \<le> x + 1 / 2"
  unfolding roundHalfEven_def Let_def by (simp; linarith)

lemma roundHalfEven_int [simp]: "roundHalfEven (of_int n) = n"
  by (simp add: roundHalfEven_def)

lemma fl_normal:
  assumes "0 < a" "2 powi e \<le> a" "a < 2 powi (e + 1)" "- 1022 \<le> e" "e \<le> 1022"
  shows "fl a = Num (of_int (roundHalfEven (a / 2 powi (e - 52))) * 2 powi (e - 52))"
    and "fl (- a) = Num (- (of_int (roundHalfEven (a / 2 powi (e - 52))) * 2 powi (e - 52)))"
proof -
  let ?u = "(2::rat) powi (e - 52)"
  let ?n = "roundHalfEven (a / ?u)"
  have fe: "flog2 a = e" using assms(1-3) by (rule flog2_unique)
  have u: "0 < ?u" by (rule powi_pos)
  have "a / ?u < 2 powi (e + 1) / ?u" using assms(3) u by (simp add: divide_strict_right_mono)
  also have "\<dots> = 2 powi 53" by (simp add: power_int_diff [symmetric])
  finally have "a / ?u < 2 ^ 53" by simp
  then have "of_int ?n < (2 ^ 53 + 1 :: rat)" using roundHalfEven_le [of "a / ?u"] by linarith
  then have "?n < 2 ^ 53 + 1" using of_int_less_iff [of ?n "2 ^ 53 + 1", where ?'a = rat] by simp
  then have "?n \<le> 2 ^ 53" by simp
  then have "(of_int ?n :: rat) \<le> 2 ^ 53" using of_int_le_iff [of ?n "2 ^ 53", where ?'a = rat] by simp
  then have "of_int ?n * ?u \<le> 2 ^ 53 * ?u" using u by (simp add: mult_right_mono)
  also have "\<dots> = 2 powi 53 * ?u" by simp
  also have "\<dots> = 2 powi (53 + (e - 52))" by (simp only: powi_add)
  also have "\<dots> = 2 powi (e + 1)" by (simp add: algebra_simps)
  also have "\<dots> < 2 powi 1024" using assms(5) by (intro powi_less) simp
  finally have r: "\<not> 2 powi 1024 \<le> of_int ?n * ?u" by simp
  have m: "max e (- 1022) = e" using assms(4) by simp
  show "fl a = Num (of_int ?n * ?u)"
    using assms(1) r by (simp add: fl_def fe m Let_def del: power_int_numeral)
  show "fl (- a) = Num (- (of_int ?n * ?u))"
    using assms(1) r by (simp add: fl_def fe m Let_def del: power_int_numeral)
qed

lemma fl_eval:
  assumes "0 < a" "2 powi e \<le> a" "a < 2 powi (e + 1)" "- 1022 \<le> e" "e \<le> 1022"
    and "roundHalfEven (a / 2 powi (e - 52)) = n" "r = of_int n * 2 powi (e - 52)"
  shows "fl a = Num r" and "fl (- a) = Num (- r)"
  using fl_normal [OF assms(1-5)] assms(6,7) by simp_all

lemma fl_nat_pos:
  assumes "0 < n" "n < 2 ^ 53"
  shows "fl (of_int n) = Num (of_int n)" and "fl (- of_int n) = Num (- of_int n)"
proof -
  let ?a = "of_int n :: rat"
  let ?e = "flog2 ?a"
  have a: "0 < ?a" using assms(1) by simp
  have b: "2 powi ?e \<le> ?a" "?a < 2 powi (?e + 1)" using flog2_bounds [OF a] by simp_all
  have "?a < of_int (2 ^ 53)" using assms(2) of_int_less_iff by blast
  then have lt: "?a < 2 powi 53" by simp
  have "1 \<le> ?a" using assms(1) by (simp add: int_one_le_iff_zero_less)
  then have ge: "2 powi 0 \<le> ?a" by simp
  have e1: "?e < 53"
  proof (rule ccontr)
    assume "\<not> ?e < 53"
    then have "(2::rat) powi 53 \<le> 2 powi ?e" by (intro powi_le) simp
    with b(1) lt show False by linarith
  qed
  have e0: "0 \<le> ?e"
  proof (rule ccontr)
    assume "\<not> 0 \<le> ?e"
    then have "(2::rat) powi (?e + 1) \<le> 2 powi 0" by (intro powi_le) simp
    with b(2) ge show False by linarith
  qed
  have u: "(2::rat) powi (?e - 52) = 1 / 2 ^ nat (52 - ?e)"
    using e1 by (simp add: power_int_def field_simps)
  have quot: "?a / 2 powi (?e - 52) = of_int (n * 2 ^ nat (52 - ?e))"
    by (simp add: u)
  have rnd: "roundHalfEven (?a / 2 powi (?e - 52)) = n * 2 ^ nat (52 - ?e)"
    by (simp only: quot roundHalfEven_int)
  have recon: "?a = of_int (n * 2 ^ nat (52 - ?e)) * 2 powi (?e - 52)"
    by (simp add: u)
  show "fl (of_int n) = Num (of_int n)"
    by (rule fl_eval(1) [OF a b(1) b(2) _ _ rnd recon]) (use e0 e1 in simp_all)
  show "fl (- of_int n) = Num (- of_int n)"
    by (rule fl_eval(2) [OF a b(1) b(2) _ _ rnd recon]) (use e0 e1 in simp_all)
qed

lemma fl_int: "\<bar>n\<bar> < 2 ^ 53 \<Longrightarrow> fl (of_int n) = Num (of_int n)"
proof (cases "0 < n")
  case True
  assume "\<bar>n\<bar> < 2 ^ 53"
  with True show ?thesis by (simp add: fl_nat_pos(1))
next
  case False
  assume b: "\<bar>n\<bar> < 2 ^ 53"
  show ?thesis
  proof (cases "n = 0")
    case True
    then show ?thesis by (simp add: fl_def)
  next
    case False
    with \<open>\<not> 0 < n\<close> b have "0 < - n" "- n < 2 ^ 53" by simp_all
    then have "fl (- of_int (- n)) = Num (- of_int (- n))" by (rule fl_nat_pos(2))
    then show ?thesis by simp
  qed
qed

lemma fl_numeral [simp]:
  "(numeral k :: int) < 2 ^ 53 \<Longrightarrow> fl (numeral k) = Num (numeral k)"
  "(numeral k :: int) < 2 ^ 53 \<Longrightarrow> fl (- numeral k) = Num (- numeral k)"
  "fl 0 = Num 0" "fl 1 = Num 1"
  using fl_int [of "numeral k"] fl_int [of "- numeral k"] fl_int [of 0] fl_int [of 1]
  by simp_all

section \<open>Evaluating the engine on concrete inputs\<close>

lemma floor_rat_numeral [simp]:
  "\<lfloor>(numeral a / numeral b :: rat)\<rfloor> = numeral a div numeral b"
  using floor_divide_of_int_eq [of "numeral a" "numeral b", where ?'a = rat] by simp

lemmas show_simps = toFixed_def Let_def digitsOf.simps digitChar_def

lemmas read_simps = parseFloat_def Let_def isWhite_def isDigit_def natOfDigits_def exponentOf_def

lemmas gateway_simps = normalizeGatewayName_def stripNonLetters_def toLowerCase_def mappings_def
  getGatewayFees_def gatewayFees_def propertyKey_def

lemmas date_simps = isValidDate_def isDigit_def natOfDigits_def

lemmas calc_simps = calculateProfit_def targetDateOf_def profitSteps_def setDay_def
  getDailyFixedCost_def getCogsMap_def batches.simps uniqueIds_def extractLineItems_def
  profitReport_def profitFigures_def calculateOrderMetrics_def matchCogs_def
  calculateTotalFees_def generateAlerts_def calculateTotals_def costStep_def round2_def
  jsub_def jgt_def jge_def orZero_def truthy_def

lemma fl_0029: "fl (29 / 1000) = Num (8358680908399641 / 288230376151711744)"
  by (rule fl_eval(1) [where e = "- 6" and n = 8358680908399641]) (simp_all add: roundHalfEven_def)

lemma fl_030: "fl (3 / 10) = Num (5404319552844595 / 18014398509481984)"
  by (rule fl_eval(1) [where e = "- 2" and n = 5404319552844595]) (simp_all add: roundHalfEven_def)

lemma fl_16_5: "fl (16 / 5) = Num (3602879701896397 / 1125899906842624)"
  by (rule fl_eval(1) [where e = 1 and n = 7205759403792794]) (simp_all add: roundHalfEven_def)

lemma fl_1_60: "fl (1 / 60) = Num (4803839602528529 / 288230376151711744)"
  by (rule fl_eval(1) [where e = "- 6" and n = 4803839602528529]) (simp_all add: roundHalfEven_def)

text \<open>\<open>100 * 0.029 + 0.30\<close> in binary64 is the number nearest to 3.2.\<close>

lemma stripe_raw_fee:
  "jadd (jmul (Num 100) (fl (29 / 1000))) (fl (3 / 10)) = Num (3602879701896397 / 1125899906842624)"
proof -
  have "jmul (Num 100) (fl (29 / 1000)) = fl (100 * (8358680908399641 / 288230376151711744))"
    by (simp add: jmul_def fl_0029)
  also have "\<dots> = Num (1632554864921805 / 562949953421312)"
    by (rule fl_eval(1) [where e = 1 and n = 6530219459687220]) (simp_all add: roundHalfEven_def)
  finally have m: "jmul (Num 100) (fl (29 / 1000)) = Num (1632554864921805 / 562949953421312)" .
  have "jadd (Num (1632554864921805 / 562949953421312)) (fl (3 / 10))
          = fl (1632554864921805 / 562949953421312 + 5404319552844595 / 18014398509481984)"
    by (simp add: fl_030)
  also have "\<dots> = Num (3602879701896397 / 1125899906842624)"
    by (rule fl_eval(1) [where e = 1 and n = 7205759403792794]) (simp_all add: roundHalfEven_def)
  finally show ?thesis by (simp only: m)
qed

text \<open>\<open>5 / 300 * 100\<close> in binary64, a little above 1.66.\<close>

lemma margin_5_of_300:
  "jmul (jdiv (Num 5) (Num 300)) (Num 100) = Num (7505999378950827 / 4503599627370496)"
proof -
  have "jmul (jdiv (Num 5) (Num 300)) (Num 100)
          = fl (4803839602528529 / 288230376151711744 * 100)"
    by (simp add: jdiv_def jmul_def fl_1_60)
  also have "\<dots> = Num (7505999378950827 / 4503599627370496)"
    by (rule fl_eval(1) [where e = 0 and n = 7505999378950827]) (simp_all add: roundHalfEven_def)
  finally show ?thesis .
qed

lemma monthly_300:
  "calculateTotals [\<lparr>description = d, amount = Num 300, frequency = ''monthly'', active = True\<rparr>]
     = \<lparr>daily = Num 10, monthly = Num 300, yearly = Num 3600\<rparr>"
proof -
  have p: "parseFloat ''10.00'' = Num 10" "parseFloat ''300.00'' = Num 300"
      "parseFloat ''3600.00'' = Num 3600"
    by (simp_all add: read_simps)
  have s: "toFixed 2 (Num 10) = ''10.00''" "toFixed 2 (Num 300) = ''300.00''"
      "toFixed 2 (Num 3600) = ''3600.00''"
    by (simp_all add: show_simps)
  show ?thesis
    by (simp add: calculateTotals_def costStep_def orZero_def truthy_def jdiv_def jmul_def
          round2_def Let_def p s)
qed

lemma sample_dates:
  "isValidDate ''2024-01-01''" "isValidDate ''2024-01-02''" "isValidDate ''2024-01-03''"
  by (simp_all add: date_simps)

lemma sample_query:
  "queryDays sampleStore ''a.myshopify.com'' ''2024-01-01'' ''2024-01-03'' = [firstDay, thirdDay]"
  by (simp add: queryDays_def sampleStore_def firstDay_def thirdDay_def sampleReport_def
        less_char_def less_eq_char_def)

lemma sample_amounts:
  "parseFloat (revenue (doc firstDay)) = Num 100" "parseFloat (revenue (doc thirdDay)) = Num 200"
  "parseFloat (netProfit (doc firstDay)) = Num 10" "parseFloat (netProfit (doc thirdDay)) = Num (- 5)"
  by (simp_all add: firstDay_def thirdDay_def sampleReport_def read_simps)

section \<open>Rounding to two fraction digits\<close>

text \<open>
  The digits \<open>toFixed\<close> prints are read back by \<open>parseFloat\<close> as the integer they write.
\<close>

lemma digitChar_digit: "d < 10 \<Longrightarrow> isDigit (digitChar d) \<and> of_char (digitChar d) - 48 = d"
proof -
  assume "d < 10"
  then have "d = 0 \<or> d = 1 \<or> d = 2 \<or> d = 3 \<or> d = 4 \<or> d = 5 \<or> d = 6 \<or> d = 7 \<or> d = 8 \<or> d = 9"
    by presburger
  then show ?thesis
    by (elim disjE) (simp_all add: digitChar_def isDigit_def)
qed

lemma digitsOf_digits: "list_all isDigit (digitsOf n)"
proof (induction n rule: digitsOf.induct)
  case (1 n)
  show ?case
  proof (cases "n < 10")
    case True
    then show ?thesis by (subst digitsOf.simps) (simp add: digitChar_digit)
  next
    case False
    have "n mod 10 < 10" by simp
    then have "isDigit (digitChar (n mod 10))" using digitChar_digit by blast
    then show ?thesis using False "1.IH" by (subst digitsOf.simps) simp
  qed
qed

lemma natOfDigits_snoc: "natOfDigits (ds @ [c]) = 10 * natOfDigits ds + (of_char c - 48)"
  by (simp add: natOfDigits_def)

lemma natOfDigits_digitsOf: "natOfDigits (digitsOf n) = n"
proof (induction n rule: digitsOf.induct)
  case (1 n)
  show ?case
  proof (cases "n < 10")
    case True
    then show ?thesis
      by (subst digitsOf.simps) (simp add: natOfDigits_def digitChar_digit)
  next
    case False
    have "n mod 10 < 10" by simp
    then have "of_char (digitChar (n mod 10)) - 48 = n mod 10" using digitChar_digit by blast
    then show ?thesis
      using False "1.IH" by (subst digitsOf.simps) (simp add: natOfDigits_snoc)
  qed
qed

lemma natOfDigits_zeros: "natOfDigits (replicate j CHR ''0'' @ ds) = natOfDigits ds"
proof -
  have "foldl (\<lambda>n c. 10 * n + (of_char c - 48)) 0 (replicate j CHR ''0'') = (0::nat)"
    by (induction j) simp_all
  then show ?thesis by (simp add: natOfDigits_def)
qed

text \<open>A string of digits, a point and more digits is read as the number it writes.\<close>

lemma parse_fixed:
  assumes "list_all isDigit ip" "ip \<noteq> []" "list_all isDigit fp"
  shows "parseFloat (ip @ ''.'' @ fp) = fl (of_nat (natOfDigits (ip @ fp)) / 10 ^ length fp)"
    and "parseFloat (''-'' @ ip @ ''.'' @ fp) = fl (- (of_nat (natOfDigits (ip @ fp)) / 10 ^ length fp))"
proof -
  let ?X = "ip @ CHR ''.'' # fp"
  obtain c cs where ip: "ip = c # cs" using assms(2) by (cases ip) auto
  have c: "isDigit c" using assms(1) ip by simp
  have nw: "\<not> isWhite c" "c \<noteq> CHR ''-''" "c \<noteq> CHR ''+''" "c \<noteq> CHR ''I''"
    using c by (auto simp: isDigit_def isWhite_def)
  have all: "\<And>x. x \<in> set ip \<Longrightarrow> isDigit x" using assms(1) by (simp add: list_all_iff)
  have allf: "\<And>x. x \<in> set fp \<Longrightarrow> isDigit x" using assms(3) by (simp add: list_all_iff)
  have nd: "\<not> isDigit CHR ''.''" by (simp add: isDigit_def)
  have a1: "dropWhile isWhite ?X = ?X" using nw(1) by (simp add: ip)
  have a2: "?X \<noteq> []" "hd ?X \<noteq> CHR ''-''" "hd ?X \<noteq> CHR ''+''"
    using nw by (simp_all add: ip)
  have a3: "take 8 ?X \<noteq> ''Infinity''" using nw(4) by (simp add: ip)
  have tw: "takeWhile isDigit ?X = ip"
    using all nd by (simp add: takeWhile_append2)
  have dw: "dropWhile isDigit ?X = CHR ''.'' # fp"
    using all nd by (simp add: dropWhile_append2)
  have tf: "takeWhile isDigit fp = fp" using allf by (simp add: takeWhile_eq_all_conv)
  have df: "dropWhile isDigit fp = []" using allf by simp
  have core: "parseFloat ?X = fl (of_nat (natOfDigits (ip @ fp)) / 10 ^ length fp)"
    unfolding parseFloat_def Let_def a1
    using a2 a3 assms(2) by (simp add: tw dw tf df exponentOf_def)
  then show "parseFloat (ip @ ''.'' @ fp) = fl (of_nat (natOfDigits (ip @ fp)) / 10 ^ length fp)"
    by simp
  have m1: "dropWhile isWhite (CHR ''-'' # ?X) = CHR ''-'' # ?X" by (simp add: isWhite_def)
  have "parseFloat (CHR ''-'' # ?X) = fl (- (of_nat (natOfDigits (ip @ fp)) / 10 ^ length fp))"
    unfolding parseFloat_def Let_def m1
    using a3 assms(2) by (simp add: tw dw tf df exponentOf_def)
  then show "parseFloat (''-'' @ ip @ ''.'' @ fp)
      = fl (- (of_nat (natOfDigits (ip @ fp)) / 10 ^ length fp))"
    by simp
qed

lemma split_last2:
  "3 \<le> length z \<Longrightarrow> take (length z - 2) z \<noteq> [] \<and> length (drop (length z - 2) z) = 2"
  by (auto simp: take_eq_Nil)

lemma toFixed2_shape:
  assumes "\<bar>x\<bar> < 10 ^ 21"
  shows "\<exists>ip fp. list_all isDigit ip \<and> ip \<noteq> [] \<and> list_all isDigit fp \<and> length fp = 2
           \<and> natOfDigits (ip @ fp) = nat \<lfloor>\<bar>x\<bar> * 100 + 1 / 2\<rfloor>
           \<and> toFixed 2 (Num x) = (if x < 0 then ''-'' else '''') @ ip @ ''.'' @ fp"
proof -
  let ?n = "nat \<lfloor>\<bar>x\<bar> * 100 + 1 / 2\<rfloor>"
  let ?m = "digitsOf ?n"
  let ?z = "replicate (3 - length ?m) CHR ''0'' @ ?m"
  let ?ip = "take (length ?z - 2) ?z"
  let ?fp = "drop (length ?z - 2) ?z"
  have z3: "3 \<le> length ?z" by simp
  have z0: "isDigit CHR ''0''" by (simp add: isDigit_def)
  have dz: "list_all isDigit ?z"
    using digitsOf_digits [of ?n] z0 by (auto simp: list_all_iff)
  have "list_all isDigit ?ip" "list_all isDigit ?fp"
    using dz by (auto simp: list_all_iff dest: in_set_takeD in_set_dropD)
  moreover have "?ip \<noteq> []" "length ?fp = 2"
    using split_last2 [OF z3] by blast+
  moreover have "natOfDigits (?ip @ ?fp) = ?n"
    by (simp only: append_take_drop_id natOfDigits_zeros natOfDigits_digitsOf)
  moreover have "toFixed 2 (Num x) = (if x < 0 then ''-'' else '''') @ ?ip @ ''.'' @ ?fp"
    using assms by (simp add: toFixed_def Let_def)
  ultimately show ?thesis by blast
qed

text \<open>
  Rounding to two fraction digits: a finite number below \<open>10^21\<close> in magnitude becomes the
  number nearest to \<open>n / 100\<close>, where \<open>n\<close> is its magnitude times 100 rounded half up, with its
  sign.
\<close>

lemma round2_finite:
  assumes "\<bar>x\<bar> < 10 ^ 21"
  shows "round2 (Num x)
           = fl ((if x < 0 then - 1 else 1) * of_nat (nat \<lfloor>\<bar>x\<bar> * 100 + 1 / 2\<rfloor>) / 100)"
proof -
  obtain ip fp where s: "list_all isDigit ip" "ip \<noteq> []" "list_all isDigit fp" "length fp = 2"
      "natOfDigits (ip @ fp) = nat \<lfloor>\<bar>x\<bar> * 100 + 1 / 2\<rfloor>"
      "toFixed 2 (Num x) = (if x < 0 then ''-'' else '''') @ ip @ ''.'' @ fp"
    using toFixed2_shape [OF assms] by blast
  show ?thesis
  proof (cases "x < 0")
    case True
    then have "round2 (Num x) = parseFloat (''-'' @ ip @ ''.'' @ fp)"
      by (simp add: round2_def s(6))
    also have "\<dots> = fl (- (of_nat (natOfDigits (ip @ fp)) / 10 ^ length fp))"
      by (rule parse_fixed(2) [OF s(1-3)])
    finally show ?thesis using True by (simp add: s(4,5))
  next
    case False
    then have "round2 (Num x) = parseFloat (ip @ ''.'' @ fp)"
      by (simp add: round2_def s(6))
    also have "\<dots> = fl (of_nat (natOfDigits (ip @ fp)) / 10 ^ length fp)"
      by (rule parse_fixed(1) [OF s(1-3)])
    finally show ?thesis using False by (simp add: s(4,5))
  qed
qed

text \<open>The engine's rounding is the rounding \<open>roundCents\<close> of the specification.\<close>

lemma round2_roundCents: "round2 x = roundCents x"
proof (cases x)
  case (Num r)
  show ?thesis
  proof (cases "\<bar>r\<bar> < 10 ^ 21")
    case True
    then show ?thesis using round2_finite [OF True] Num by (simp add: roundCents_def)
  next
    case False
    then show ?thesis using Num by (simp add: roundCents_def round2_def toFixed_def Let_def)
  qed
next
  case NaN
  then show ?thesis by (simp add: roundCents_def round2_def toFixed_def read_simps)
next
  case PInf
  then show ?thesis by (simp add: roundCents_def round2_def toFixed_def read_simps)
next
  case NInf
  then show ?thesis by (simp add: roundCents_def round2_def toFixed_def read_simps)
qed

text \<open>What \<open>toFixed\<close> prints below \<open>10^21\<close> has exactly the fraction digits asked for.\<close>

lemma fraction_shape:
  assumes "\<And>c. c \<in> set ip \<Longrightarrow> c \<noteq> CHR ''.''" "list_all isDigit fp"
  shows "fractionDigits (ip @ CHR ''.'' # fp) = Some (length fp)"
proof -
  have "dropWhile (\<lambda>c. c \<noteq> CHR ''.'') (ip @ CHR ''.'' # fp) = dropWhile (\<lambda>c. c \<noteq> CHR ''.'') (CHR ''.'' # fp)"
    by (rule dropWhile_append2) (use assms(1) in blast)
  then have "dropWhile (\<lambda>c. c \<noteq> CHR ''.'') (ip @ CHR ''.'' # fp) = CHR ''.'' # fp"
    by simp
  then show ?thesis
    unfolding fractionDigits_def using assms(2) by simp
qed


lemma toFixed_fraction_digits:
  assumes "\<bar>x\<bar> < 10 ^ 21" "0 < f"
  shows "fractionDigits (toFixed f (Num x)) = Some f"
proof -
  define z where "z = replicate (f + 1 - length (digitsOf (nat \<lfloor>\<bar>x\<bar> * 10 ^ f + 1 / 2\<rfloor>))) CHR ''0''
                        @ digitsOf (nat \<lfloor>\<bar>x\<bar> * 10 ^ f + 1 / 2\<rfloor>)"
  define sg where "sg = (if x < 0 then ''-'' else [])"
  have zl: "f < length z" by (simp add: z_def)
  have z0: "isDigit CHR ''0''" by (simp add: isDigit_def)
  have dz: "\<And>c. c \<in> set z \<Longrightarrow> isDigit c"
    using digitsOf_digits [of "nat \<lfloor>\<bar>x\<bar> * 10 ^ f + 1 / 2\<rfloor>"] z0
    by (auto simp: z_def list_all_iff)
  have nd: "\<And>c. isDigit c \<Longrightarrow> c \<noteq> CHR ''.''" by (auto simp: isDigit_def)
  have sg: "\<And>c. c \<in> set sg \<Longrightarrow> c \<noteq> CHR ''.''" by (simp add: sg_def split: if_splits)
  have ip: "\<And>c. c \<in> set (sg @ take (length z - f) z) \<Longrightarrow> c \<noteq> CHR ''.''"
    using sg dz nd by (auto dest: in_set_takeD)
  have fp: "list_all isDigit (drop (length z - f) z)"
    using dz by (auto simp: list_all_iff dest: in_set_dropD)
  have lf: "length (drop (length z - f) z) = f"
    using zl by simp
  have t: "toFixed f (Num x) = (sg @ take (length z - f) z) @ CHR ''.'' # drop (length z - f) z"
    using assms by (simp add: toFixed_def Let_def z_def sg_def)
  have "fractionDigits ((sg @ take (length z - f) z) @ CHR ''.'' # drop (length z - f) z)
          = Some (length (drop (length z - f) z))"
    by (rule fraction_shape [OF _ fp]) (rule ip)
  then show ?thesis
    by (simp only: t lf)
qed

section \<open>Fees of single orders\<close>






lemma fee_model_table: "getGatewayFees g = feeTable (normalizeGatewayName g)"
proof (cases "normalizeGatewayName g")
  case (Name n)
  have z: "fl 0 = Num 0" by (simp add: fl_def)
  show ?thesis
    by (simp add: getGatewayFees_def Name propertyKey_def gatewayFees_def feeTable_def z)
next
  case ObjectConstructor
  then show ?thesis
    by (simp add: getGatewayFees_def propertyKey_def gatewayFees_def feeTable_def)
qed

lemma order_fee_spec: "calculateOrderFee amt g = specOrderFee amt (normalizeGatewayName g)"
  by (simp add: calculateOrderFee_def specOrderFee_def Let_def fee_model_table round2_roundCents)

lemma normalize_examples:
  "normalizeGatewayName ''stripe'' = Name ''stripe''"
  "normalizeGatewayName ''paypal'' = Name ''paypal''"
  "normalizeGatewayName ''mercadopago'' = Name ''mercadopago''"
  by (simp_all add: normalizeGatewayName_def stripNonLetters_def toLowerCase_def mappings_def)

lemma stripe_fee: "specOrderFee (Num 100) (Name ''stripe'') = fl (16 / 5)"
  by (simp add: specOrderFee_def feeTable_def stripe_raw_fee roundCents_def)



section \<open>The day of one order\<close>

text \<open>
  The inputs fetched on the day of \<open>busyEnv\<close>, and the metrics, the cost matching, the fees,
  the figures and the report computed from them.
\<close>

lemma digitsOf_inj: "digitsOf n = digitsOf m \<Longrightarrow> n = m"
  by (metis natOfDigits_digitsOf)

lemma digits_42_7: "digitsOf 42 = ''42''" "digitsOf 7 = ''7''"
  by (simp_all add: digitsOf.simps digitChar_def)

lemma busy_lookup: "busyCosts (digitsOf n) = busyLookup n"
proof -
  have "digitsOf n = ''42'' \<longleftrightarrow> n = 42" "digitsOf n = ''7'' \<longleftrightarrow> n = 7"
    using digitsOf_inj [of n 42] digitsOf_inj [of n 7] by (auto simp: digits_42_7)
  then show ?thesis by (simp add: busyCosts_def busyLookup_def)
qed

lemma busy_items:
  "extractLineItems [mixedOrder] =
     [\<lparr>orderId = 1001, variantId = Some 42, productId = Some 7, itemSku = ''MUG-1'',
       itemTitle = ''Mug'', itemQuantity = Num 2, itemPrice = Num 30, totalPrice = Num 60\<rparr>,
      \<lparr>orderId = 1001, variantId = None, productId = None, itemSku = '''',
       itemTitle = ''Gift wrap'', itemQuantity = Num 1, itemPrice = Num 12, totalPrice = Num 12\<rparr>,
      \<lparr>orderId = 1001, variantId = Some 7, productId = Some 3, itemSku = ''PEN-1'',
       itemTitle = ''Pen'', itemQuantity = Num 3, itemPrice = Num 5, totalPrice = Num 15\<rparr>]"
proof -
  have p: "parseFloat ''30.00'' = Num 30" "parseFloat ''12.00'' = Num 12" "parseFloat ''5.00'' = Num 5"
    by (simp_all add: read_simps)
  show ?thesis
    by (simp add: extractLineItems_def mixedOrder_def p orZero_def truthy_def jmul_def)
qed

lemma fl_1_3: "fl (1 / 3) = Num (6004799503160661 / 18014398509481984)"
  by (rule fl_eval(1) [where e = "- 2" and n = 6004799503160661]) (simp_all add: roundHalfEven_def)

lemma one_of_three:
  "jmul (jdiv (Num 1) (Num 3)) (Num 100) = Num (2345624805922133 / 70368744177664)"
proof -
  have "jmul (jdiv (Num 1) (Num 3)) (Num 100) = fl (6004799503160661 / 18014398509481984 * 100)"
    by (simp add: jdiv_def jmul_def fl_1_3)
  also have "\<dots> = Num (2345624805922133 / 70368744177664)"
    by (rule fl_eval(1) [where e = 5 and n = 4691249611844266]) (simp_all add: roundHalfEven_def)
  finally show ?thesis .
qed

lemma busy_fetches:
  "verifyShop busyEnv shopDomain = Inr (Some \<lparr>accessToken = ''token'', shopCurrency = ''USD''\<rparr>)"
  "fetchOrdersForDate busyEnv shopDomain ''token'' ''2024-01-02'' = Inr [mixedOrder]"
  "getCogsMap (productCosts busyEnv shopDomain)
     (uniqueIds (map variantId (extractLineItems [mixedOrder]))) = Inr busyCosts"
  "adSpendDaily busyEnv shopDomain = Inr
         [\<lparr>spendDate = ''2024-01-02'', spendDoc = \<lparr>platform = ''facebook'', spend = Num 20\<rparr>\<rparr>,
          \<lparr>spendDate = ''2024-01-01'', spendDoc = \<lparr>platform = ''facebook'', spend = Num 99\<rparr>\<rparr>,
          \<lparr>spendDate = ''2024-01-02'', spendDoc = \<lparr>platform = ''google'', spend = Num 15\<rparr>\<rparr>]"
  "getDailyFixedCost busyEnv shopDomain = Inr (Num 10)"
  "dailyMetricsFault busyEnv = None"
proof -
  have p: "parseFloat ''10.00'' = Num 10" by (simp add: read_simps)
  have s: "toFixed 2 (Num 10) = ''10.00''" by (simp add: show_simps)
  show "verifyShop busyEnv shopDomain = Inr (Some \<lparr>accessToken = ''token'', shopCurrency = ''USD''\<rparr>)"
    "fetchOrdersForDate busyEnv shopDomain ''token'' ''2024-01-02'' = Inr [mixedOrder]"
    "adSpendDaily busyEnv shopDomain = Inr
         [\<lparr>spendDate = ''2024-01-02'', spendDoc = \<lparr>platform = ''facebook'', spend = Num 20\<rparr>\<rparr>,
          \<lparr>spendDate = ''2024-01-01'', spendDoc = \<lparr>platform = ''facebook'', spend = Num 99\<rparr>\<rparr>,
          \<lparr>spendDate = ''2024-01-02'', spendDoc = \<lparr>platform = ''google'', spend = Num 15\<rparr>\<rparr>]"
    "dailyMetricsFault busyEnv = None"
    by (simp_all add: busyEnv_def)
  show "getDailyFixedCost busyEnv shopDomain = Inr (Num 10)"
    by (simp add: busyEnv_def getDailyFixedCost_def calculateTotals_def costStep_def orZero_def
          truthy_def round2_def Let_def p s)
  have b: "batches [''42'', ''7''] = [[''42'', ''7'']]"
    by (simp add: batches.simps)
  show "getCogsMap (productCosts busyEnv shopDomain)
     (uniqueIds (map variantId (extractLineItems [mixedOrder]))) = Inr busyCosts"
    by (simp add: busy_items uniqueIds_def getCogsMap_def digits_42_7 b busyEnv_def busyCosts_def
          orZero_def truthy_def)
qed

lemma busy_metrics:
  "calculateOrderMetrics [mixedOrder] =
     \<lparr>m_orderCount = 1, totalRevenue = ''100.00'', totalTax = ''8.00'', totalShipping = ''5.00'',
      totalDiscounts = ''0.00'', m_itemsSold = Num 6, m_averageOrderValue = ''100.00''\<rparr>"
proof -
  have p: "parseFloat ''100.00'' = Num 100" "parseFloat ''8.00'' = Num 8"
      "parseFloat ''5.00'' = Num 5" "parseFloat ''0.00'' = Num 0"
    by (simp_all add: read_simps)
  have s: "toFixed 2 (Num 100) = ''100.00''" "toFixed 2 (Num 8) = ''8.00''"
      "toFixed 2 (Num 5) = ''5.00''" "toFixed 2 (Num 0) = ''0.00''"
    by (simp_all add: show_simps)
  show ?thesis
    by (simp add: calculateOrderMetrics_def metricsStep_def mixedOrder_def p s orZero_def
          truthy_def jdiv_def Let_def)
qed

lemma busy_match:
  "matchCogs busyCosts (extractLineItems [mixedOrder])
     = \<lparr>totalCogs = Num 24, cogsMatchedItems = 1, cogsMissingItems = 2\<rparr>"
  by (simp add: matchCogs_def cogsStep_def itemCogs_def variantKey_def busy_items digits_42_7
        busyCosts_def orZero_def truthy_def jgt_def jmul_def)

lemma fl_keep_320:
  "fl (3602879701896397 / 1125899906842624) = Num (3602879701896397 / 1125899906842624)"
  by (rule fl_eval(1) [where e = 1 and n = 7205759403792794]) (simp_all add: roundHalfEven_def)

lemma busy_fees:
  "calculateTotalFees [mixedOrder]
     = (fl (16 / 5), [(''stripe'', \<lparr>count = 1, orderTotal = Num 100, bucketFees = fl (16 / 5)\<rparr>)])"
proof -
  have p: "parseFloat ''100.00'' = Num 100" by (simp add: read_simps)
  have g: "orderGateway mixedOrder = ''stripe''" "total_price mixedOrder = ''100.00''"
    by (simp_all add: orderGateway_def mixedOrder_def)
  have f: "calculateOrderFee (Num 100) ''stripe'' = Num (3602879701896397 / 1125899906842624)"
    by (simp only: order_fee_spec normalize_examples stripe_fee fl_16_5)
  have r: "roundCents (Num (3602879701896397 / 1125899906842624)) = fl (16 / 5)"
      "roundCents (Num 100) = Num 100"
    by (simp_all add: roundCents_def)
  show ?thesis
    by (simp add: calculateTotalFees_def feeStep_def g p f normalize_examples propertyKey_def
          orZero_def truthy_def fl_keep_320 round2_roundCents r Let_def)
qed

lemma busy_ads_sum:
  "foldl adSpendStep ([], Num 0) busyAds = ([(''facebook'', Num 20), (''google'', Num 15)], Num 35)"
  by (simp add: busyAds_def adSpendStep_def orZero_def truthy_def)

text \<open>\<open>100 - 24 - 35 - 3.2 - 10\<close> in binary64 is 27.799999999999997.\<close>

lemma busy_net:
  "jsub (jsub (jsub (jsub (Num 100) (Num 24)) (Num 35)) (fl (16 / 5))) (Num 10)
     = Num (1956251088139059 / 70368744177664)"
proof -
  have "jsub (Num 41) (fl (16 / 5)) = fl (41 - 3602879701896397 / 1125899906842624)"
    by (simp add: jsub_def fl_16_5)
  also have "\<dots> = Num (2659938529915699 / 70368744177664)"
    by (rule fl_eval(1) [where e = 5 and n = 5319877059831398]) (simp_all add: roundHalfEven_def)
  finally have a: "jsub (Num 41) (fl (16 / 5)) = Num (2659938529915699 / 70368744177664)" .
  have "jsub (Num (2659938529915699 / 70368744177664)) (Num 10)
          = fl (2659938529915699 / 70368744177664 - 10)"
    by (simp add: jsub_def)
  also have "\<dots> = Num (1956251088139059 / 70368744177664)"
    by (rule fl_eval(1) [where e = 4 and n = 7825004352556236]) (simp_all add: roundHalfEven_def)
  finally have b: "jsub (Num (2659938529915699 / 70368744177664)) (Num 10)
                     = Num (1956251088139059 / 70368744177664)" .
  have c: "jsub (jsub (Num 100) (Num 24)) (Num 35) = Num 41"
    by (simp add: jsub_def)
  show ?thesis by (simp only: c a b)
qed

lemma busy_margins:
  "jmul (jdiv (Num (1956251088139059 / 70368744177664)) (Num 100)) (Num 100)
     = Num (1956251088139059 / 70368744177664)"
  "jmul (jdiv (Num 76) (Num 100)) (Num 100) = Num 76"
  "jmul (jdiv (Num 35) (Num 100)) (Num 100) = Num 35"
proof -
  have "jdiv (Num (1956251088139059 / 70368744177664)) (Num 100)
          = fl (1956251088139059 / 70368744177664 / 100)"
    by (simp add: jdiv_def)
  also have "\<dots> = Num (5008002785635991 / 18014398509481984)"
    by (rule fl_eval(1) [where e = "- 2" and n = 5008002785635991]) (simp_all add: roundHalfEven_def)
  finally have a: "jdiv (Num (1956251088139059 / 70368744177664)) (Num 100)
                     = Num (5008002785635991 / 18014398509481984)" .
  have "jmul (Num (5008002785635991 / 18014398509481984)) (Num 100)
          = fl (5008002785635991 / 18014398509481984 * 100)"
    by (simp add: jmul_def)
  also have "\<dots> = Num (1956251088139059 / 70368744177664)"
    by (rule fl_eval(1) [where e = 4 and n = 7825004352556236]) (simp_all add: roundHalfEven_def)
  finally show "jmul (jdiv (Num (1956251088139059 / 70368744177664)) (Num 100)) (Num 100)
     = Num (1956251088139059 / 70368744177664)"
    by (simp only: a)
  have "jdiv (Num 76) (Num 100) = fl (19 / 25)"
    by (simp add: jdiv_def)
  also have "\<dots> = Num (3422735716801577 / 4503599627370496)"
    by (rule fl_eval(1) [where e = "- 1" and n = 6845471433603154]) (simp_all add: roundHalfEven_def)
  finally have g: "jdiv (Num 76) (Num 100) = Num (3422735716801577 / 4503599627370496)" .
  have "jmul (Num (3422735716801577 / 4503599627370496)) (Num 100)
          = fl (3422735716801577 / 4503599627370496 * 100)"
    by (simp add: jmul_def)
  also have "\<dots> = Num 76"
    by (rule fl_eval(1) [where e = 6 and n = 5348024557502464]) (simp_all add: roundHalfEven_def)
  finally show "jmul (jdiv (Num 76) (Num 100)) (Num 100) = Num 76"
    by (simp only: g)
  have "jdiv (Num 35) (Num 100) = fl (7 / 20)"
    by (simp add: jdiv_def)
  also have "\<dots> = Num (3152519739159347 / 9007199254740992)"
    by (rule fl_eval(1) [where e = "- 2" and n = 6305039478318694]) (simp_all add: roundHalfEven_def)
  finally have r: "jdiv (Num 35) (Num 100) = Num (3152519739159347 / 9007199254740992)" .
  have "jmul (Num (3152519739159347 / 9007199254740992)) (Num 100)
          = fl (3152519739159347 / 9007199254740992 * 100)"
    by (simp add: jmul_def)
  also have "\<dots> = Num 35"
    by (rule fl_eval(1) [where e = 5 and n = 4925812092436480]) (simp_all add: roundHalfEven_def)
  finally show "jmul (jdiv (Num 35) (Num 100)) (Num 100) = Num 35"
    by (simp only: r)
qed

lemma busy_figures:
  "profitFigures [mixedOrder] busyCosts busyAds (Num 10) =
     \<lparr>f_revenue = Num 100, f_totalCogs = Num 24, f_totalAdSpend = Num 35,
      f_totalFees = fl (16 / 5), f_dailyFixedCosts = Num 10, f_grossProfit = Num 76,
      f_netProfit = Num (1956251088139059 / 70368744177664),
      f_profitMargin = Num (1956251088139059 / 70368744177664),
      f_grossMargin = Num 76\<rparr>"
proof -
  have p: "parseFloat ''100.00'' = Num 100" by (simp add: read_simps)
  have g: "jsub (Num 100) (Num 24) = Num 76" by (simp add: jsub_def)
  have n: "jsub (jsub (jsub (Num 76) (Num 35)) (fl (16 / 5))) (Num 10)
             = Num (1956251088139059 / 70368744177664)"
    using busy_net by (simp only: g)
  show ?thesis
    unfolding profitFigures_def Let_def busy_metrics busy_match busy_fees busy_ads_sum
    by (simp add: p g n busy_margins jgt_def)
qed

lemma busy_report:
  "profitReport ''2024-01-02'' ''USD'' [mixedOrder] busyCosts busyAds (Num 10) =
     \<lparr>date = ''2024-01-02'', currency = ''USD'', revenue = ''100.00'', orderCount = 1,
      itemsSold = Num 6, averageOrderValue = ''100.00'', cogs = ''24.00'', cogsMatchRate = ''33.3'',
      adSpend = ''35.00'', adSpendByPlatform = [(''facebook'', Num 20), (''google'', Num 15)],
      fees = ''3.20'',
      feeBreakdown = [(''stripe'', \<lparr>count = 1, orderTotal = Num 100, bucketFees = fl (16 / 5)\<rparr>)],
      fixedCosts = ''10.00'', grossProfit = ''76.00'', grossMargin = ''76.0'',
      netProfit = ''27.80'', profitMargin = ''27.8'', isProfitable = True,
      alerts = [\<lparr>alertType = ''warning'', message = ''Only 33% of products have COGS configured'',
                 action = ''Add product costs for accurate profit calculation''\<rparr>,
                \<lparr>alertType = ''warning'', message = ''Ad spend is 35% of revenue'',
                 action = ''Consider optimizing your ad campaigns''\<rparr>]\<rparr>"
proof -
  have s2: "toFixed 2 (Num 100) = ''100.00''" "toFixed 2 (Num 24) = ''24.00''"
      "toFixed 2 (Num 35) = ''35.00''" "toFixed 2 (Num 10) = ''10.00''"
      "toFixed 2 (Num 76) = ''76.00''"
      "toFixed 2 (Num (3602879701896397 / 1125899906842624)) = ''3.20''"
      "toFixed 2 (Num (1956251088139059 / 70368744177664)) = ''27.80''"
    by (simp_all add: show_simps)
  have s1: "toFixed 1 (Num 76) = ''76.0''"
      "toFixed 1 (Num (1956251088139059 / 70368744177664)) = ''27.8''"
      "toFixed 1 (Num (2345624805922133 / 70368744177664)) = ''33.3''"
    by (simp_all add: show_simps del: One_nat_def)
  have s0: "toFixed 0 (Num 35) = ''35''"
      "toFixed 0 (Num (2345624805922133 / 70368744177664)) = ''33''"
    by (simp_all add: show_simps)
  have c: "percentOf 1 3 = Num (2345624805922133 / 70368744177664)"
    using one_of_three by (simp add: percentOf_def)
  have l: "length (extractLineItems [mixedOrder]) = 3" by (simp add: busy_items)
  show ?thesis
    unfolding profitReport_def Let_def busy_figures busy_metrics busy_match busy_fees busy_ads_sum l
    by (simp add: fl_16_5 s2 s1 s0 c generateAlerts_def busy_margins jgt_def jge_def
          del: One_nat_def)
qed

section \<open>The daily report is a function of what was fetched\<close>

lemma profitSteps_result:
  "fst (profitSteps e clk1 st1 shopDomain d) = fst (profitSteps e clk2 st2 shopDomain d)"
  by (simp add: profitSteps_def setDay_def Let_def split: sum.splits option.splits)

lemma calculateProfit_result:
  assumes "targetDateOf clk1 dateArg = targetDateOf clk2 dateArg"
  shows "fst (calculateProfit e clk1 st1 auth dateArg) = fst (calculateProfit e clk2 st2 auth dateArg)"
proof (cases auth)
  case None
  then show ?thesis by (simp add: calculateProfit_def)
next
  case (Some shopDomain)
  let ?d = "targetDateOf clk1 dateArg"
  obtain r1 s1 where p1: "profitSteps e clk1 st1 shopDomain ?d = (r1, s1)"
    by (cases "profitSteps e clk1 st1 shopDomain ?d")
  obtain r2 s2 where p2: "profitSteps e clk2 st2 shopDomain ?d = (r2, s2)"
    by (cases "profitSteps e clk2 st2 shopDomain ?d")
  have "r1 = r2"
    using profitSteps_result [of e clk1 st1 shopDomain ?d clk2 st2] p1 p2 by simp
  then show ?thesis
    using Some p1 p2 assms [symmetric]
    by (simp add: calculateProfit_def Let_def split: sum.splits)
qed

text \<open>A report that is returned is \<open>profitReport\<close> of the fetched inputs.\<close>

lemma calculateProfit_report:
  assumes "calculateProfit e clk st (Some shopDomain) dateArg = (Inr r, st')"
  shows "\<exists>shopData orders cogsMap spends fixedDaily.
           verifyShop e shopDomain = Inr (Some shopData)
         \<and> fetchOrdersForDate e shopDomain (accessToken shopData) (targetDateOf clk dateArg)
             = Inr orders
         \<and> getCogsMap (productCosts e shopDomain)
              (uniqueIds (map variantId (extractLineItems orders))) = Inr cogsMap
         \<and> adSpendDaily e shopDomain = Inr spends
         \<and> getDailyFixedCost e shopDomain = Inr fixedDaily
         \<and> r = profitReport (targetDateOf clk dateArg) (shopCurrency shopData) orders cogsMap
                 (map spendDoc (filter (\<lambda>s. spendDate s = targetDateOf clk dateArg) spends))
                 fixedDaily"
  using assms
  by (auto simp: calculateProfit_def profitSteps_def Let_def
           split: if_splits sum.splits option.splits prod.splits)

text \<open>
  When every fetch and the write succeed, the value returned is \<open>profitReport\<close> of the
  fetched inputs, whatever the report store holds and whatever the clock shows; and the money
  fields of \<open>profitReport\<close> are its figures printed with two fraction digits, the margins
  with one.
\<close>

lemma calculateProfit_success:
  assumes "targetDateOf clk dateArg = d" "isValidDate d"
    and "verifyShop e shopDomain = Inr (Some shopData)"
    and "fetchOrdersForDate e shopDomain (accessToken shopData) d = Inr orders"
    and "getCogsMap (productCosts e shopDomain)
           (uniqueIds (map variantId (extractLineItems orders))) = Inr cogsMap"
    and "adSpendDaily e shopDomain = Inr spends"
    and "getDailyFixedCost e shopDomain = Inr fixedDaily"
    and "dailyMetricsFault e = None"
  shows "fst (calculateProfit e clk st (Some shopDomain) dateArg)
           = Inr (profitReport d (shopCurrency shopData) orders cogsMap
                    (map spendDoc (filter (\<lambda>s. spendDate s = d) spends)) fixedDaily)"
  using assms by (simp add: calculateProfit_def profitSteps_def setDay_def Let_def)

lemma report_fields:
  assumes "fig = profitFigures orders cogsMap adDocs fixedDaily"
    and "r = profitReport d cur orders cogsMap adDocs fixedDaily"
  shows "revenue r = toFixed 2 (f_revenue fig)" "cogs r = toFixed 2 (f_totalCogs fig)"
    "adSpend r = toFixed 2 (f_totalAdSpend fig)" "fees r = toFixed 2 (f_totalFees fig)"
    "fixedCosts r = toFixed 2 fixedDaily" "grossProfit r = toFixed 2 (f_grossProfit fig)"
    "netProfit r = toFixed 2 (f_netProfit fig)"
    "grossMargin r = toFixed 1 (f_grossMargin fig)" "profitMargin r = toFixed 1 (f_profitMargin fig)"
    "alerts r = generateAlerts
        \<lparr>a_cogsMissingItems = cogsMissingItems (matchCogs cogsMap (extractLineItems orders)),
         a_cogsMatchedItems = cogsMatchedItems (matchCogs cogsMap (extractLineItems orders)),
         a_lineItems = length (extractLineItems orders),
         a_profitMargin = f_profitMargin fig,
         a_adSpend = f_totalAdSpend fig,
         a_revenue = f_revenue fig\<rparr>"
  unfolding assms by (simp_all add: profitReport_def Let_def) (simp add: profitFigures_def Let_def)

text \<open>
  Counterexample to C1 as stated: on the day of \<open>busyEnv\<close> (one order of 100.00, costs 24,
  ad spend 35, fee 3.20, fixed costs 10) the report returned has gross margin 76.0 and profit
  margin 27.8, strings with one fraction digit, not two; the money fields have two.
\<close>

theorem margin_digits_counterexample:
  "fst (calculateProfit busyEnv sampleClock emptyStore (Some ''a.myshopify.com'') ''2024-01-02'')
     = Inr (profitReport ''2024-01-02'' ''USD'' [mixedOrder] busyCosts busyAds (Num 10))
   \<and> profitReport ''2024-01-02'' ''USD'' [mixedOrder] busyCosts busyAds (Num 10) =
     \<lparr>date = ''2024-01-02'', currency = ''USD'', revenue = ''100.00'', orderCount = 1,
      itemsSold = Num 6, averageOrderValue = ''100.00'', cogs = ''24.00'', cogsMatchRate = ''33.3'',
      adSpend = ''35.00'', adSpendByPlatform = [(''facebook'', Num 20), (''google'', Num 15)],
      fees = ''3.20'',
      feeBreakdown = [(''stripe'', \<lparr>count = 1, orderTotal = Num 100, bucketFees = fl (16 / 5)\<rparr>)],
      fixedCosts = ''10.00'', grossProfit = ''76.00'', grossMargin = ''76.0'',
      netProfit = ''27.80'', profitMargin = ''27.8'', isProfitable = True,
      alerts = [\<lparr>alertType = ''warning'', message = ''Only 33% of products have COGS configured'',
                 action = ''Add product costs for accurate profit calculation''\<rparr>,
                \<lparr>alertType = ''warning'', message = ''Ad spend is 35% of revenue'',
                 action = ''Consider optimizing your ad campaigns''\<rparr>]\<rparr>
   \<and> fractionDigits (grossMargin (profitReport ''2024-01-02'' ''USD'' [mixedOrder] busyCosts busyAds
          (Num 10))) = Some 1
   \<and> fractionDigits (profitMargin (profitReport ''2024-01-02'' ''USD'' [mixedOrder] busyCosts busyAds
          (Num 10))) = Some 1"
proof -
  have t: "targetDateOf sampleClock ''2024-01-02'' = ''2024-01-02''"
    by (simp add: targetDateOf_def)
  have "fst (calculateProfit busyEnv sampleClock emptyStore (Some ''a.myshopify.com'') ''2024-01-02'')
     = Inr (profitReport ''2024-01-02'' ''USD'' [mixedOrder] busyCosts busyAds (Num 10))"
    using calculateProfit_success [OF t sample_dates(2) busy_fetches(1), of "''a.myshopify.com''"
        "[mixedOrder]" busyCosts _ "Num 10" emptyStore]
    by (simp add: busy_fetches busyAds_def)
  then show ?thesis
    by (simp add: busy_report fractionDigits_def isDigit_def)
qed

text \<open>
  C1, amended. With the fetched inputs fixed (shop record, orders, cost lookup, ad-spend
  entries, daily fixed cost) and the same target date, two invocations of \<open>calculateProfit\<close>
  return the same report \<open>r\<close>, whichever stores and clocks they run on, also when the second
  runs on the store left by the first. In \<open>r\<close> the fields revenue, cogs, adSpend, fees,
  fixedCosts, grossProfit and netProfit are the figures of step 6 printed by \<open>toFixed(2)\<close>,
  the two margins are printed by \<open>toFixed(1)\<close>, and the alerts are those of \<open>generateAlerts\<close>
  on the same figures. (By \<open>toFixed_fraction_digits\<close> these strings have two fraction digits
  and one; by \<open>calculateProfit_result\<close> two invocations agree also when they fail.)
\<close>

theorem calculateProfit_idempotent:
  "targetDateOf clk1 dateArg = d \<Longrightarrow> targetDateOf clk2 dateArg = d \<Longrightarrow> isValidDate d \<Longrightarrow>
   verifyShop e shopDomain = Inr (Some shopData) \<Longrightarrow>
   fetchOrdersForDate e shopDomain (accessToken shopData) d = Inr orders \<Longrightarrow>
   getCogsMap (productCosts e shopDomain) (uniqueIds (map variantId (extractLineItems orders)))
     = Inr cogsMap \<Longrightarrow>
   adSpendDaily e shopDomain = Inr spends \<Longrightarrow>
   getDailyFixedCost e shopDomain = Inr fixedDaily \<Longrightarrow>
   dailyMetricsFault e = None \<Longrightarrow>
   adDocs = map spendDoc (filter (\<lambda>s. spendDate s = d) spends) \<Longrightarrow>
   fig = profitFigures orders cogsMap adDocs fixedDaily \<Longrightarrow>
   r = profitReport d (shopCurrency shopData) orders cogsMap adDocs fixedDaily \<Longrightarrow>
     fst (calculateProfit e clk1 st1 (Some shopDomain) dateArg) = Inr r
   \<and> fst (calculateProfit e clk2 st2 (Some shopDomain) dateArg) = Inr r
   \<and> fst (calculateProfit e clk2 (snd (calculateProfit e clk1 st1 (Some shopDomain) dateArg))
             (Some shopDomain) dateArg) = Inr r
   \<and> revenue r = toFixed 2 (f_revenue fig) \<and> cogs r = toFixed 2 (f_totalCogs fig)
   \<and> adSpend r = toFixed 2 (f_totalAdSpend fig) \<and> fees r = toFixed 2 (f_totalFees fig)
   \<and> fixedCosts r = toFixed 2 fixedDaily \<and> grossProfit r = toFixed 2 (f_grossProfit fig)
   \<and> netProfit r = toFixed 2 (f_netProfit fig)
   \<and> grossMargin r = toFixed 1 (f_grossMargin fig)
   \<and> profitMargin r = toFixed 1 (f_profitMargin fig)
   \<and> alerts r = generateAlerts
        \<lparr>a_cogsMissingItems = cogsMissingItems (matchCogs cogsMap (extractLineItems orders)),
         a_cogsMatchedItems = cogsMatchedItems (matchCogs cogsMap (extractLineItems orders)),
         a_lineItems = length (extractLineItems orders),
         a_profitMargin = f_profitMargin fig,
         a_adSpend = f_totalAdSpend fig,
         a_revenue = f_revenue fig\<rparr>"
proof -
  assume d1: "targetDateOf clk1 dateArg = d" and d2: "targetDateOf clk2 dateArg = d"
    and v: "isValidDate d"
    and fetched: "verifyShop e shopDomain = Inr (Some shopData)"
      "fetchOrdersForDate e shopDomain (accessToken shopData) d = Inr orders"
      "getCogsMap (productCosts e shopDomain) (uniqueIds (map variantId (extractLineItems orders)))
         = Inr cogsMap"
      "adSpendDaily e shopDomain = Inr spends"
      "getDailyFixedCost e shopDomain = Inr fixedDaily"
      "dailyMetricsFault e = None"
    and a: "adDocs = map spendDoc (filter (\<lambda>s. spendDate s = d) spends)"
    and f: "fig = profitFigures orders cogsMap adDocs fixedDaily"
    and r: "r = profitReport d (shopCurrency shopData) orders cogsMap adDocs fixedDaily"
  have run1: "\<And>st. fst (calculateProfit e clk1 st (Some shopDomain) dateArg) = Inr r"
    using calculateProfit_success [OF d1 v fetched] by (simp add: r a)
  have run2: "\<And>st. fst (calculateProfit e clk2 st (Some shopDomain) dateArg) = Inr r"
    using calculateProfit_success [OF d2 v fetched] by (simp add: r a)
  show ?thesis
    using run1 [of st1] run2 [of st2]
      run2 [of "snd (calculateProfit e clk1 st1 (Some shopDomain) dateArg)"]
      report_fields [OF f r]
    by simp
qed

text \<open>
  Witness for C1: the day of \<open>busyEnv\<close>, asked for once on an empty store and once, three
  days later, on a store that already holds reports; the net profit is printed as 27.80 and
  the profit margin as 27.8.
\<close>

theorem calculateProfit_idempotent_witness:
  "targetDateOf sampleClock ''2024-01-02'' = ''2024-01-02''
   \<and> targetDateOf laterClock ''2024-01-02'' = ''2024-01-02''
   \<and> isValidDate ''2024-01-02''
   \<and> verifyShop busyEnv ''a.myshopify.com''
       = Inr (Some \<lparr>accessToken = ''token'', shopCurrency = ''USD''\<rparr>)
   \<and> fetchOrdersForDate busyEnv ''a.myshopify.com'' ''token'' ''2024-01-02'' = Inr [mixedOrder]
   \<and> getCogsMap (productCosts busyEnv ''a.myshopify.com'')
        (uniqueIds (map variantId (extractLineItems [mixedOrder]))) = Inr busyCosts
   \<and> adSpendDaily busyEnv ''a.myshopify.com'' = Inr
         [\<lparr>spendDate = ''2024-01-02'', spendDoc = \<lparr>platform = ''facebook'', spend = Num 20\<rparr>\<rparr>,
          \<lparr>spendDate = ''2024-01-01'', spendDoc = \<lparr>platform = ''facebook'', spend = Num 99\<rparr>\<rparr>,
          \<lparr>spendDate = ''2024-01-02'', spendDoc = \<lparr>platform = ''google'', spend = Num 15\<rparr>\<rparr>]
   \<and> getDailyFixedCost busyEnv ''a.myshopify.com'' = Inr (Num 10)
   \<and> dailyMetricsFault busyEnv = None
   \<and> fst (calculateProfit busyEnv sampleClock emptyStore (Some ''a.myshopify.com'') ''2024-01-02'')
       = Inr (profitReport ''2024-01-02'' ''USD'' [mixedOrder] busyCosts busyAds (Num 10))
   \<and> fst (calculateProfit busyEnv laterClock sampleStore (Some ''a.myshopify.com'') ''2024-01-02'')
       = Inr (profitReport ''2024-01-02'' ''USD'' [mixedOrder] busyCosts busyAds (Num 10))
   \<and> fst (calculateProfit busyEnv laterClock
            (snd (calculateProfit busyEnv sampleClock emptyStore (Some ''a.myshopify.com'')
                    ''2024-01-02''))
            (Some ''a.myshopify.com'') ''2024-01-02'')
       = Inr (profitReport ''2024-01-02'' ''USD'' [mixedOrder] busyCosts busyAds (Num 10))
   \<and> revenue (profitReport ''2024-01-02'' ''USD'' [mixedOrder] busyCosts busyAds (Num 10))
       = toFixed 2 (Num 100)
   \<and> netProfit (profitReport ''2024-01-02'' ''USD'' [mixedOrder] busyCosts busyAds (Num 10))
       = toFixed 2 (Num (1956251088139059 / 70368744177664))
   \<and> profitMargin (profitReport ''2024-01-02'' ''USD'' [mixedOrder] busyCosts busyAds (Num 10))
       = toFixed 1 (Num (1956251088139059 / 70368744177664))
   \<and> toFixed 2 (Num (1956251088139059 / 70368744177664)) = ''27.80''
   \<and> toFixed 1 (Num (1956251088139059 / 70368744177664)) = ''27.8''"
proof -
  have t: "targetDateOf sampleClock ''2024-01-02'' = ''2024-01-02''"
      "targetDateOf laterClock ''2024-01-02'' = ''2024-01-02''"
    by (simp_all add: targetDateOf_def)
  have a: "busyAds = map spendDoc (filter (\<lambda>s. spendDate s = ''2024-01-02'')
             [\<lparr>spendDate = ''2024-01-02'', spendDoc = \<lparr>platform = ''facebook'', spend = Num 20\<rparr>\<rparr>,
              \<lparr>spendDate = ''2024-01-01'', spendDoc = \<lparr>platform = ''facebook'', spend = Num 99\<rparr>\<rparr>,
              \<lparr>spendDate = ''2024-01-02'', spendDoc = \<lparr>platform = ''google'', spend = Num 15\<rparr>\<rparr>])"
    by (simp add: busyAds_def)
  have c: "''USD'' = shopCurrency \<lparr>accessToken = ''token'', shopCurrency = ''USD''\<rparr>"
      "''token'' = accessToken \<lparr>accessToken = ''token'', shopCurrency = ''USD''\<rparr>"
    by simp_all
  have o: "fetchOrdersForDate busyEnv ''a.myshopify.com''
             (accessToken \<lparr>accessToken = ''token'', shopCurrency = ''USD''\<rparr>) ''2024-01-02''
           = Inr [mixedOrder]"
    by (simp add: busy_fetches)
  have r: "profitReport ''2024-01-02'' ''USD'' [mixedOrder] busyCosts busyAds (Num 10)
           = profitReport ''2024-01-02'' (shopCurrency \<lparr>accessToken = ''token'', shopCurrency = ''USD''\<rparr>)
               [mixedOrder] busyCosts busyAds (Num 10)"
    by simp
  have s: "toFixed 2 (Num (1956251088139059 / 70368744177664)) = ''27.80''"
      "toFixed 1 (Num (1956251088139059 / 70368744177664)) = ''27.8''"
    by (simp_all add: show_simps del: One_nat_def)
  show ?thesis
    using calculateProfit_idempotent [OF t sample_dates(2) busy_fetches(1) o busy_fetches(3,4,5,6)
        a busy_figures [symmetric] r, of emptyStore sampleStore]
      t sample_dates(2) busy_fetches s
    by simp
qed

section \<open>The loss alert\<close>

lemma loss_alert_iff:
  "lossAlert \<in> set (generateAlerts m) \<longleftrightarrow> jlt (a_profitMargin m) (Num 0)"
  by (auto simp: generateAlerts_def lossAlert_def)

lemma no_loss_alert_without_revenue:
  assumes "\<not> jgt (f_revenue (profitFigures orders cogsMap adDocs fixedDaily)) (Num 0)"
  shows "lossAlert \<notin> set (alerts (profitReport d cur orders cogsMap adDocs fixedDaily))"
proof -
  have "f_profitMargin (profitFigures orders cogsMap adDocs fixedDaily) = Num 0"
    using assms by (simp add: profitFigures_def Let_def)
  then show ?thesis
    by (simp add: profitReport_def Let_def loss_alert_iff)
qed

text \<open>
  C2. The loss alert follows the sign of the profit margin, not of the net profit, and the
  margin is 0 whenever revenue is not positive. On the day of \<open>lossEnv\<close> (no orders, no ad
  spend, one active daily fixed cost of 10) the report has revenue 0.00 and net profit -10.00,
  is not profitable, and carries no alert at all: the error alert does not fire.
\<close>

theorem zero_revenue_loss_unalerted:
  "fst (calculateProfit lossEnv sampleClock emptyStore (Some ''a.myshopify.com'') ''2024-01-02'')
   = Inr \<lparr>date = ''2024-01-02'', currency = ''USD'', revenue = ''0.00'', orderCount = 0,
          itemsSold = Num 0, averageOrderValue = ''0.00'', cogs = ''0.00'', cogsMatchRate = ''100'',
          adSpend = ''0.00'', adSpendByPlatform = [], fees = ''0.00'', feeBreakdown = [],
          fixedCosts = ''10.00'', grossProfit = ''0.00'', grossMargin = ''0.0'',
          netProfit = ''-10.00'', profitMargin = ''0.0'', isProfitable = False, alerts = []\<rparr>"
proof -
  have p: "parseFloat ''0.00'' = Num 0" "parseFloat ''10.00'' = Num 10"
    by (simp_all add: read_simps)
  have s: "toFixed 2 (Num 0) = ''0.00''" "toFixed 2 (Num 10) = ''10.00''"
      "toFixed 2 (Num (- 10)) = ''-10.00''" "toFixed 1 (Num 0) = ''0.0''"
    by (simp_all add: show_simps)
  show ?thesis
    by (simp add: lossEnv_def sampleClock_def emptyStore_def calc_simps sample_dates p s Let_def
          del: One_nat_def)
qed

section \<open>Range aggregation\<close>

lemma rangeStep_fields:
  "s_revenue (rangeStep s day) = jadd (s_revenue s) (orZero (parseFloat (revenue (doc day))))"
  "s_netProfit (rangeStep s day) = jadd (s_netProfit s) (orZero (parseFloat (netProfit (doc day))))"
  by (simp_all add: rangeStep_def)

lemma aggregate_fields:
  "daysCount (aggregate startD endD ds) = length ds"
  "t_revenue (totals (aggregate startD endD ds)) =
     toFixed 2 (s_revenue (foldl rangeStep
        \<lparr>s_revenue = Num 0, s_cogs = Num 0, s_adSpend = Num 0, s_fees = Num 0,
         s_fixedCosts = Num 0, s_netProfit = Num 0, s_orderCount = 0\<rparr> ds))"
  "t_netProfit (totals (aggregate startD endD ds)) =
     toFixed 2 (s_netProfit (foldl rangeStep
        \<lparr>s_revenue = Num 0, s_cogs = Num 0, s_adSpend = Num 0, s_fees = Num 0,
         s_fixedCosts = Num 0, s_netProfit = Num 0, s_orderCount = 0\<rparr> ds))"
  "t_profitMargin (totals (aggregate startD endD ds)) =
     (let s = foldl rangeStep
        \<lparr>s_revenue = Num 0, s_cogs = Num 0, s_adSpend = Num 0, s_fees = Num 0,
         s_fixedCosts = Num 0, s_netProfit = Num 0, s_orderCount = 0\<rparr> ds
      in toFixed 1 (if jgt (s_revenue s) (Num 0)
                    then jmul (jdiv (s_netProfit s) (s_revenue s)) (Num 100) else Num 0))"
  by (simp_all add: aggregate_def Let_def)

text \<open>Two days with revenue 100 and 200 and net profit 10 and -5, in either order.\<close>

lemma two_day_totals:
  assumes "ds = [d1, d2] \<or> ds = [d2, d1]"
    and "parseFloat (revenue (doc d1)) = Num 100" "parseFloat (revenue (doc d2)) = Num 200"
    and "parseFloat (netProfit (doc d1)) = Num 10" "parseFloat (netProfit (doc d2)) = Num (- 5)"
  shows "daysCount (aggregate startD endD ds) = 2"
    and "t_revenue (totals (aggregate startD endD ds)) = ''300.00''"
    and "t_netProfit (totals (aggregate startD endD ds)) = ''5.00''"
    and "t_profitMargin (totals (aggregate startD endD ds)) = ''1.7''"
proof -
  let ?s = "foldl rangeStep
        \<lparr>s_revenue = Num 0, s_cogs = Num 0, s_adSpend = Num 0, s_fees = Num 0,
         s_fixedCosts = Num 0, s_netProfit = Num 0, s_orderCount = 0\<rparr> ds"
  have rv: "s_revenue ?s = Num 300"
    using assms(1-3) by (auto simp: rangeStep_fields orZero_def truthy_def)
  have np: "s_netProfit ?s = Num 5"
    using assms(1,4,5) by (auto simp: rangeStep_fields orZero_def truthy_def)
  show "daysCount (aggregate startD endD ds) = 2"
    using assms(1) by (auto simp: aggregate_fields)
  show "t_revenue (totals (aggregate startD endD ds)) = ''300.00''"
    by (simp only: aggregate_fields rv) (simp add: show_simps)
  show "t_netProfit (totals (aggregate startD endD ds)) = ''5.00''"
    by (simp only: aggregate_fields np) (simp add: show_simps)
  have m: "toFixed 1 (Num (7505999378950827 / 4503599627370496)) = ''1.7''"
    by (simp add: show_simps)
  show "t_profitMargin (totals (aggregate startD endD ds)) = ''1.7''"
    by (simp add: aggregate_fields(4) Let_def rv np jgt_def margin_5_of_300 m del: One_nat_def)
qed

lemma range_reads_store:
  assumes "isValidDate startD" "isValidDate endD" "dailyMetricsFault e = None"
  shows "calculateProfitRange e st (Some shopDomain) startD endD
           = (Inr (aggregate startD endD (queryDays st shopDomain startD endD)),
              st\<lparr>ops := ops st @ [QueryDays shopDomain startD endD]\<rparr>)"
  using assms by (simp add: calculateProfitRange_def)

text \<open>
  Counterexample to C3 as stated: on \<open>sampleStore\<close>, whose only reports of the shop between
  1 and 3 January 2024 have revenue 100.00 and 200.00 and net profit 10.00 and -5.00, the
  range aggregation returns revenue 300.00, net profit 5.00 and two days, but the profit
  margin it returns is the string 1.7, not 1.67.
\<close>

theorem range_margin_counterexample:
  "fst (calculateProfitRange lossEnv sampleStore (Some ''a.myshopify.com'') ''2024-01-01''
          ''2024-01-03'')
     = Inr (aggregate ''2024-01-01'' ''2024-01-03'' [firstDay, thirdDay])
   \<and> t_revenue (totals (aggregate ''2024-01-01'' ''2024-01-03'' [firstDay, thirdDay])) = ''300.00''
   \<and> t_netProfit (totals (aggregate ''2024-01-01'' ''2024-01-03'' [firstDay, thirdDay])) = ''5.00''
   \<and> daysCount (aggregate ''2024-01-01'' ''2024-01-03'' [firstDay, thirdDay]) = 2
   \<and> t_profitMargin (totals (aggregate ''2024-01-01'' ''2024-01-03'' [firstDay, thirdDay])) = ''1.7''
   \<and> t_profitMargin (totals (aggregate ''2024-01-01'' ''2024-01-03'' [firstDay, thirdDay]))
       \<noteq> ''1.67''"
proof -
  have f: "dailyMetricsFault lossEnv = None" by (simp add: lossEnv_def)
  have t: "firstDay # [thirdDay] = [firstDay, thirdDay] \<or> firstDay # [thirdDay] = [thirdDay, firstDay]"
    by simp
  show ?thesis
    using range_reads_store [OF sample_dates(1) sample_dates(3) f, of sampleStore "''a.myshopify.com''"]
      two_day_totals [OF t sample_amounts, of "''2024-01-01''" "''2024-01-03''"]
    by (simp add: sample_query)
qed

text \<open>
  C3, amended. If the query over the requested window finds exactly two daily reports, with
  revenue 100 and 200 and net profit 10 and -5, then the range aggregation returns totals
  revenue 300.00, net profit 5.00 and profit margin 1.7 (summed net profit over summed revenue
  times 100, printed with one fraction digit), and \<open>daysCount\<close> 2, the number of reports
  found, whatever the length of the window.
\<close>

theorem range_two_days:
  "isValidDate startD \<Longrightarrow> isValidDate endD \<Longrightarrow> dailyMetricsFault e = None \<Longrightarrow>
   queryDays st shopDomain startD endD = [d1, d2] \<or> queryDays st shopDomain startD endD = [d2, d1] \<Longrightarrow>
   parseFloat (revenue (doc d1)) = Num 100 \<Longrightarrow> parseFloat (revenue (doc d2)) = Num 200 \<Longrightarrow>
   parseFloat (netProfit (doc d1)) = Num 10 \<Longrightarrow> parseFloat (netProfit (doc d2)) = Num (- 5) \<Longrightarrow>
     fst (calculateProfitRange e st (Some shopDomain) startD endD)
       = Inr (aggregate startD endD (queryDays st shopDomain startD endD))
   \<and> t_revenue (totals (aggregate startD endD (queryDays st shopDomain startD endD))) = ''300.00''
   \<and> t_netProfit (totals (aggregate startD endD (queryDays st shopDomain startD endD))) = ''5.00''
   \<and> t_profitMargin (totals (aggregate startD endD (queryDays st shopDomain startD endD))) = ''1.7''
   \<and> daysCount (aggregate startD endD (queryDays st shopDomain startD endD)) = 2"
  using range_reads_store [of startD endD e st shopDomain]
    two_day_totals [of "queryDays st shopDomain startD endD" d1 d2 startD endD]
  by simp

text \<open>
  Witness for C3: \<open>sampleStore\<close> and the window from 1 to 3 January 2024, which holds the
  reports of two of its three days.
\<close>

theorem range_two_days_witness:
  "isValidDate ''2024-01-01'' \<and> isValidDate ''2024-01-03'' \<and> dailyMetricsFault lossEnv = None
   \<and> queryDays sampleStore ''a.myshopify.com'' ''2024-01-01'' ''2024-01-03'' = [firstDay, thirdDay]
   \<and> parseFloat (revenue (doc firstDay)) = Num 100 \<and> parseFloat (revenue (doc thirdDay)) = Num 200
   \<and> parseFloat (netProfit (doc firstDay)) = Num 10
   \<and> parseFloat (netProfit (doc thirdDay)) = Num (- 5)
   \<and> t_profitMargin (totals (aggregate ''2024-01-01'' ''2024-01-03''
         (queryDays sampleStore ''a.myshopify.com'' ''2024-01-01'' ''2024-01-03''))) = ''1.7''
   \<and> daysCount (aggregate ''2024-01-01'' ''2024-01-03''
         (queryDays sampleStore ''a.myshopify.com'' ''2024-01-01'' ''2024-01-03'')) = 2"
proof -
  have f: "dailyMetricsFault lossEnv = None" by (simp add: lossEnv_def)
  have q: "queryDays sampleStore ''a.myshopify.com'' ''2024-01-01'' ''2024-01-03'' = [firstDay, thirdDay]
           \<or> queryDays sampleStore ''a.myshopify.com'' ''2024-01-01'' ''2024-01-03''
               = [thirdDay, firstDay]"
    by (simp add: sample_query)
  show ?thesis
    using range_two_days [OF sample_dates(1) sample_dates(3) f q sample_amounts]
      sample_dates f sample_query sample_amounts
    by simp
qed

section \<open>Failures of the fetches\<close>

lemma profitSteps_orders_fail:
  assumes "verifyShop e shopDomain = Inr (Some shopData)"
    and "fetchOrdersForDate e shopDomain (accessToken shopData) d = Inl err"
  shows "profitSteps e clk st shopDomain d = (Inl err, st)"
  using assms by (simp add: profitSteps_def)

lemma profitSteps_cogs_fail:
  assumes "verifyShop e shopDomain = Inr (Some shopData)"
    and "fetchOrdersForDate e shopDomain (accessToken shopData) d = Inr orders"
    and "getCogsMap (productCosts e shopDomain) (uniqueIds (map variantId (extractLineItems orders)))
           = Inl err"
  shows "profitSteps e clk st shopDomain d = (Inl err, st)"
  using assms by (simp add: profitSteps_def)

text \<open>A failed computation of any kind leaves the stored reports as they were.\<close>

lemma failure_keeps_reports:
  "calculateProfit e clk st auth dateArg = (Inl err, st') \<Longrightarrow> days st' = days st"
  by (auto simp: calculateProfit_def profitSteps_def setDay_def Let_def
           split: option.splits sum.splits if_splits)

text \<open>
  C4. For an authenticated request with a valid target date and a known shop: if the order
  fetch fails, or the orders arrive and the cost lookup fails, with message \<open>err\<close>, then
  \<open>calculateProfit\<close> returns the error \<open>internal\<close> with message \<open>Calculation failed: err\<close> and
  the report store is exactly the one before the call: no document is written or changed and
  no operation is issued against the store. The failure is not turned into a report.
\<close>

theorem fetch_failure_writes_nothing:
  "isValidDate (targetDateOf clk dateArg) \<Longrightarrow>
   verifyShop e shopDomain = Inr (Some shopData) \<Longrightarrow>
   fetchOrdersForDate e shopDomain (accessToken shopData) (targetDateOf clk dateArg) = Inl err
   \<or> (fetchOrdersForDate e shopDomain (accessToken shopData) (targetDateOf clk dateArg) = Inr orders
      \<and> getCogsMap (productCosts e shopDomain)
           (uniqueIds (map variantId (extractLineItems orders))) = Inl err) \<Longrightarrow>
   calculateProfit e clk st (Some shopDomain) dateArg
     = (Inl (HttpsError ''internal'' (''Calculation failed: '' @ err)), st)"
proof -
  assume v: "isValidDate (targetDateOf clk dateArg)"
    and s: "verifyShop e shopDomain = Inr (Some shopData)"
    and f: "fetchOrdersForDate e shopDomain (accessToken shopData) (targetDateOf clk dateArg) = Inl err
      \<or> (fetchOrdersForDate e shopDomain (accessToken shopData) (targetDateOf clk dateArg) = Inr orders
         \<and> getCogsMap (productCosts e shopDomain)
              (uniqueIds (map variantId (extractLineItems orders))) = Inl err)"
  have "profitSteps e clk st shopDomain (targetDateOf clk dateArg) = (Inl err, st)"
    using s f profitSteps_orders_fail profitSteps_cogs_fail by blast
  then show ?thesis
    using v by (simp add: calculateProfit_def Let_def)
qed

text \<open>
  Witness for C4: the order fetch of \<open>ordersDownEnv\<close> fails, and the cost lookup of
  \<open>cogsDownEnv\<close> fails after its one order has arrived; in both cases the caller gets the
  error and \<open>sampleStore\<close> is returned untouched.
\<close>

theorem fetch_failure_writes_nothing_witness:
  "calculateProfit ordersDownEnv sampleClock sampleStore (Some ''a.myshopify.com'') ''''
     = (Inl (HttpsError ''internal'' ''Calculation failed: Failed to fetch orders: timeout''),
        sampleStore)
   \<and> calculateProfit cogsDownEnv sampleClock sampleStore (Some ''a.myshopify.com'') ''2024-01-03''
     = (Inl (HttpsError ''internal'' ''Calculation failed: productCosts unavailable''), sampleStore)"
proof -
  have v: "isValidDate (targetDateOf sampleClock '''')"
      "isValidDate (targetDateOf sampleClock ''2024-01-03'')"
    by (simp_all add: targetDateOf_def sampleClock_def sample_dates)
  have s: "verifyShop ordersDownEnv ''a.myshopify.com''
             = Inr (Some \<lparr>accessToken = ''token'', shopCurrency = ''USD''\<rparr>)"
      "verifyShop cogsDownEnv ''a.myshopify.com''
             = Inr (Some \<lparr>accessToken = ''token'', shopCurrency = ''USD''\<rparr>)"
    by (simp_all add: ordersDownEnv_def cogsDownEnv_def lossEnv_def)
  have o: "fetchOrdersForDate ordersDownEnv ''a.myshopify.com''
             (accessToken \<lparr>accessToken = ''token'', shopCurrency = ''USD''\<rparr>)
             (targetDateOf sampleClock '''') = Inl ''Failed to fetch orders: timeout''
           \<or> (fetchOrdersForDate ordersDownEnv ''a.myshopify.com''
                 (accessToken \<lparr>accessToken = ''token'', shopCurrency = ''USD''\<rparr>)
                 (targetDateOf sampleClock '''') = Inr []
              \<and> getCogsMap (productCosts ordersDownEnv ''a.myshopify.com'')
                   (uniqueIds (map variantId (extractLineItems [])))
                  = Inl ''Failed to fetch orders: timeout'')"
    by (simp add: ordersDownEnv_def lossEnv_def)
  have c: "fetchOrdersForDate cogsDownEnv ''a.myshopify.com''
             (accessToken \<lparr>accessToken = ''token'', shopCurrency = ''USD''\<rparr>)
             (targetDateOf sampleClock ''2024-01-03'') = Inl ''productCosts unavailable''
           \<or> (fetchOrdersForDate cogsDownEnv ''a.myshopify.com''
                 (accessToken \<lparr>accessToken = ''token'', shopCurrency = ''USD''\<rparr>)
                 (targetDateOf sampleClock ''2024-01-03'') = Inr [sampleOrder]
              \<and> getCogsMap (productCosts cogsDownEnv ''a.myshopify.com'')
                   (uniqueIds (map variantId (extractLineItems [sampleOrder])))
                  = Inl ''productCosts unavailable'')"
    by (simp add: cogsDownEnv_def lossEnv_def sampleOrder_def getCogsMap_def uniqueIds_def
          extractLineItems_def batches.simps digitsOf.simps digitChar_def)
  show ?thesis
    using fetch_failure_writes_nothing [OF v(1) s(1) o, of sampleStore]
      fetch_failure_writes_nothing [OF v(2) s(2) c, of sampleStore]
    by simp
qed

section \<open>Cost matching\<close>

lemma jgt_zero_truthy: "jgt c (Num 0) \<Longrightarrow> orZero c = c"
  by (cases c) (auto simp: jgt_def orZero_def truthy_def)

lemma jgt_orZero: "jgt (orZero c) (Num 0) = jgt c (Num 0)"
  by (cases c) (auto simp: jgt_def orZero_def truthy_def)

lemma item_matched:
  assumes "m ''undefined'' = None" "\<forall>n. m (digitsOf n) = costs n"
  shows "jgt (itemCogs m i) (Num 0) = hasCost costs i"
proof (cases "variantId i")
  case None
  then show ?thesis using assms(1) by (simp add: itemCogs_def variantKey_def hasCost_def jgt_def)
next
  case (Some n)
  then show ?thesis
    using assms(2) by (simp add: itemCogs_def variantKey_def hasCost_def jgt_orZero split: option.splits)
       (simp add: jgt_def)
qed

lemma item_contribution:
  assumes "\<forall>n. m (digitsOf n) = costs n" "hasCost costs i"
  shows "jmul (itemCogs m i) (itemQuantity i) = costOfItem costs i"
  using assms
  by (auto simp: itemCogs_def variantKey_def hasCost_def costOfItem_def jgt_zero_truthy
           split: option.splits)

lemma cogsStep_fields:
  assumes "m ''undefined'' = None" "\<forall>n. m (digitsOf n) = costs n"
  shows "totalCogs (cogsStep m acc i) =
     (if hasCost costs i then jadd (totalCogs acc) (costOfItem costs i) else totalCogs acc)"
  "cogsMatchedItems (cogsStep m acc i) =
     (if hasCost costs i then cogsMatchedItems acc + 1 else cogsMatchedItems acc)"
  "cogsMissingItems (cogsStep m acc i) =
     (if hasCost costs i then cogsMissingItems acc else cogsMissingItems acc + 1)"
  using item_contribution [OF assms(2), of i]
  by (simp_all add: cogsStep_def item_matched [OF assms])

lemma cogs_loop:
  assumes "m ''undefined'' = None" "\<forall>n. m (digitsOf n) = costs n"
  shows "foldl (cogsStep m) acc items =
     \<lparr>totalCogs = foldl jadd (totalCogs acc) (map (costOfItem costs) (filter (hasCost costs) items)),
      cogsMatchedItems = cogsMatchedItems acc + length (filter (hasCost costs) items),
      cogsMissingItems = cogsMissingItems acc + length (filter (\<lambda>i. \<not> hasCost costs i) items)\<rparr>"
proof (induction items arbitrary: acc)
  case Nil
  show ?case by simp
next
  case (Cons i items)
  show ?case
    by (simp add: Cons.IH cogsStep_fields [OF assms])
qed

lemma docs_dom:
  "dom (foldl (\<lambda>m (docId, cogs). m(docId \<mapsto> orZero cogs)) m docs) = dom m \<union> fst ` set docs"
  by (induction docs arbitrary: m) auto

lemma collectCogs_dom:
  assumes "\<And>batch docs. query batch = Inr docs \<Longrightarrow> fst ` set docs \<subseteq> set batch"
    and "collectCogs query m bs = Inr m'"
  shows "dom m' \<subseteq> dom m \<union> \<Union> (set ` set bs)"
  using assms(2)
proof (induction bs arbitrary: m)
  case Nil
  then show ?case by simp
next
  case (Cons b bs)
  obtain docs where q: "query b = Inr docs"
    using Cons.prems by (cases "query b") auto
  have "dom m' \<subseteq> dom (foldl (\<lambda>m (docId, cogs). m(docId \<mapsto> orZero cogs)) m docs)
                    \<union> \<Union> (set ` set bs)"
    using Cons.IH Cons.prems q by simp
  also have "\<dots> = dom m \<union> fst ` set docs \<union> \<Union> (set ` set bs)"
    by (simp only: docs_dom)
  also have "\<dots> \<subseteq> dom m \<union> \<Union> (set ` set (b # bs))"
    using assms(1) [OF q] by auto
  finally show ?case .
qed

lemma batches_union: "\<Union> (set ` set (batches xs)) = set xs"
proof (induction xs rule: batches.induct)
  case (1 xs)
  show ?case
  proof (cases "xs = []")
    case True
    then show ?thesis by (simp add: batches.simps)
  next
    case False
    have "set (take 10 xs) \<union> set (drop 10 xs) = set xs"
      by (metis append_take_drop_id set_append)
    then show ?thesis
      using False "1.IH" by (subst batches.simps) simp
  qed
qed

text \<open>
  When the store answers a query with documents of the requested batch only, the lookup that
  \<open>getCogsMap\<close> builds has no property \<open>undefined\<close>: its keys are decimal numerals.
\<close>

lemma getCogsMap_keys:
  assumes "\<And>batch docs. query batch = Inr docs \<Longrightarrow> fst ` set docs \<subseteq> set batch"
    and "getCogsMap query variantIds = Inr cogsMap"
  shows "dom cogsMap \<subseteq> digitsOf ` set variantIds" and "cogsMap ''undefined'' = None"
proof -
  show d: "dom cogsMap \<subseteq> digitsOf ` set variantIds"
    using collectCogs_dom [OF assms(1), of query Map.empty "batches (map digitsOf variantIds)"
        cogsMap] assms(2)
    by (simp add: getCogsMap_def batches_union)
  have "''undefined'' \<notin> digitsOf ` set variantIds"
  proof
    assume "''undefined'' \<in> digitsOf ` set variantIds"
    then obtain n where "digitsOf n = ''undefined''" by auto
    then have "list_all isDigit ''undefined''" using digitsOf_digits [of n] by simp
    then show False by (simp add: isDigit_def)
  qed
  then show "cogsMap ''undefined'' = None" using d by blast
qed

text \<open>
  C5. For every orders list and cost lookup, over the flattened line items. The lookup object
  \<open>cogsMap\<close> stands for the cost lookup \<open>costs\<close>: it keeps the cost of variant \<open>n\<close> under the
  decimal numeral of \<open>n\<close> and has no property \<open>undefined\<close>, the key under which a line item
  without variant id is looked up. Then the matched count is the number of items whose
  variant id has a cost greater than zero in the lookup, the missing count the number of all
  others (no variant id, absent key, zero, negative or \<open>NaN\<close> cost); the COGS total is the sum,
  in item order, of \<open>cost * quantity\<close> over the matched items; and \<open>cogsMatchRate\<close> is
  \<open>matched / total * 100\<close> printed with one fraction digit, or the string 100 when there is no
  line item.
\<close>

theorem cogs_matching:
  "cogsMap ''undefined'' = None \<Longrightarrow> \<forall>n. cogsMap (digitsOf n) = costs n \<Longrightarrow>
     cogsMatchedItems (matchCogs cogsMap (extractLineItems orders))
       = length (filter (hasCost costs) (extractLineItems orders))
   \<and> cogsMissingItems (matchCogs cogsMap (extractLineItems orders))
       = length (filter (\<lambda>i. \<not> hasCost costs i) (extractLineItems orders))
   \<and> totalCogs (matchCogs cogsMap (extractLineItems orders))
       = foldl jadd (Num 0) (map (costOfItem costs) (filter (hasCost costs) (extractLineItems orders)))
   \<and> cogsMatchRate (profitReport targetDate cur orders cogsMap adDocs fixedDaily)
       = specMatchRate (length (filter (hasCost costs) (extractLineItems orders)))
                       (length (extractLineItems orders))"
proof -
  assume u: "cogsMap ''undefined'' = None" and l: "\<forall>n. cogsMap (digitsOf n) = costs n"
  have m: "matchCogs cogsMap (extractLineItems orders) =
     \<lparr>totalCogs = foldl jadd (Num 0)
                   (map (costOfItem costs) (filter (hasCost costs) (extractLineItems orders))),
      cogsMatchedItems = length (filter (hasCost costs) (extractLineItems orders)),
      cogsMissingItems = length (filter (\<lambda>i. \<not> hasCost costs i) (extractLineItems orders))\<rparr>"
    by (simp add: matchCogs_def cogs_loop [OF u l])
  show "cogsMatchedItems (matchCogs cogsMap (extractLineItems orders))
       = length (filter (hasCost costs) (extractLineItems orders))
   \<and> cogsMissingItems (matchCogs cogsMap (extractLineItems orders))
       = length (filter (\<lambda>i. \<not> hasCost costs i) (extractLineItems orders))
   \<and> totalCogs (matchCogs cogsMap (extractLineItems orders))
       = foldl jadd (Num 0) (map (costOfItem costs) (filter (hasCost costs) (extractLineItems orders)))
   \<and> cogsMatchRate (profitReport targetDate cur orders cogsMap adDocs fixedDaily)
       = specMatchRate (length (filter (hasCost costs) (extractLineItems orders)))
                       (length (extractLineItems orders))"
    by (simp add: m profitReport_def Let_def specMatchRate_def percentOf_def)
qed

lemma busy_spec_side:
  "filter (hasCost busyLookup) (extractLineItems [mixedOrder]) = [hd (extractLineItems [mixedOrder])]"
  "length (filter (\<lambda>i. \<not> hasCost busyLookup i) (extractLineItems [mixedOrder])) = 2"
  "costOfItem busyLookup (hd (extractLineItems [mixedOrder])) = Num 24"
  by (simp_all add: busy_items hasCost_def costOfItem_def busyLookup_def jgt_def jmul_def)

text \<open>
  Witness for C5: the order of two mugs (variant 42, cost 12), a gift wrap without variant id
  and three pens (variant 7, cost 0): one item matched, two missing, a COGS total of 24 and a
  rate of 33.3.
\<close>

theorem cogs_matching_witness:
  "busyCosts ''undefined'' = None \<and> (\<forall>n. busyCosts (digitsOf n) = busyLookup n)
   \<and> cogsMatchedItems (matchCogs busyCosts (extractLineItems [mixedOrder])) = 1
   \<and> cogsMissingItems (matchCogs busyCosts (extractLineItems [mixedOrder])) = 2
   \<and> totalCogs (matchCogs busyCosts (extractLineItems [mixedOrder])) = Num 24
   \<and> cogsMatchRate (profitReport ''2024-01-02'' ''USD'' [mixedOrder] busyCosts [] (Num 0)) = ''33.3''"
proof -
  have u: "busyCosts ''undefined'' = None" by (simp add: busyCosts_def)
  have l: "\<forall>n. busyCosts (digitsOf n) = busyLookup n" by (simp add: busy_lookup)
  have n: "length (extractLineItems [mixedOrder]) = 3" by (simp add: busy_items)
  have r: "specMatchRate (Suc 0) 3 = ''33.3''"
    using one_of_three by (simp add: specMatchRate_def show_simps)
  show ?thesis
    using cogs_matching [OF u l, of "[mixedOrder]" "''2024-01-02''" "''USD''" "[]" "Num 0"] u l
    by (simp add: busy_spec_side n r)
qed

section \<open>Fixed-cost amortization\<close>

lemma costStep_fields:
  "daily (costStep acc c) = (if counted c then jadd (daily acc) (toDaily c) else daily acc)"
  "monthly (costStep acc c) = (if counted c then jadd (monthly acc) (toMonthly c) else monthly acc)"
  "yearly (costStep acc c) = (if counted c then jadd (yearly acc) (toYearly c) else yearly acc)"
  by (simp_all add: costStep_def counted_def knownFrequency_def toDaily_def toMonthly_def
        toYearly_def Let_def)

lemma cost_loop:
  "foldl costStep acc costs =
     \<lparr>daily = foldl jadd (daily acc) (map toDaily (filter counted costs)),
      monthly = foldl jadd (monthly acc) (map toMonthly (filter counted costs)),
      yearly = foldl jadd (yearly acc) (map toYearly (filter counted costs))\<rparr>"
proof (induction costs arbitrary: acc)
  case Nil
  show ?case by simp
next
  case (Cons c costs)
  show ?case
    by (simp add: Cons.IH costStep_fields)
qed

lemma totals_table: "calculateTotals costs = specTotals costs"
  by (simp add: calculateTotals_def specTotals_def cost_loop Let_def round2_roundCents)

text \<open>The example lists in binary64.\<close>

lemma fl_1_7: "fl (1 / 7) = Num (2573485501354569 / 18014398509481984)"
  by (rule fl_eval(1) [where e = "- 3" and n = 5146971002709138]) (simp_all add: roundHalfEven_def)

lemma fl_10_7: "fl (10 / 7) = Num (6433713753386423 / 4503599627370496)"
  by (rule fl_eval(1) [where e = 0 and n = 6433713753386423]) (simp_all add: roundHalfEven_def)

lemma fl_433: "fl (433 / 100) = Num (2437573298314281 / 562949953421312)"
  by (rule fl_eval(1) [where e = 2 and n = 4875146596628562]) (simp_all add: roundHalfEven_def)

lemma fl_433_10: "fl (433 / 10) = Num (3046966622892851 / 70368744177664)"
  by (rule fl_eval(1) [where e = 5 and n = 6093933245785702]) (simp_all add: roundHalfEven_def)

lemma fl_433_50: "fl (433 / 50) = Num (2437573298314281 / 281474976710656)"
  by (rule fl_eval(1) [where e = 3 and n = 4875146596628562]) (simp_all add: roundHalfEven_def)

lemma fl_keep:
  "fl (6433713753386423 / 4503599627370496) = Num (6433713753386423 / 4503599627370496)"
  "fl (3046966622892851 / 70368744177664) = Num (3046966622892851 / 70368744177664)"
  "fl (2573485501354569 / 18014398509481984) = Num (2573485501354569 / 18014398509481984)"
  "fl (2573485501354569 / 9007199254740992) = Num (2573485501354569 / 9007199254740992)"
  "fl (2437573298314281 / 562949953421312) = Num (2437573298314281 / 562949953421312)"
  "fl (2437573298314281 / 281474976710656) = Num (2437573298314281 / 281474976710656)"
       apply (rule fl_eval(1) [where e = 0 and n = 6433713753386423]; simp add: roundHalfEven_def)
      apply (rule fl_eval(1) [where e = 5 and n = 6093933245785702]; simp add: roundHalfEven_def)
     apply (rule fl_eval(1) [where e = "- 3" and n = 5146971002709138]; simp add: roundHalfEven_def)
    apply (rule fl_eval(1) [where e = "- 2" and n = 5146971002709138]; simp add: roundHalfEven_def)
   apply (rule fl_eval(1) [where e = 2 and n = 4875146596628562]; simp add: roundHalfEven_def)
  apply (rule fl_eval(1) [where e = 3 and n = 4875146596628562]; simp add: roundHalfEven_def)
  done

lemma fl_10_433:
  "fl (10 * (2437573298314281 / 562949953421312)) = Num (3046966622892851 / 70368744177664)"
  by (rule fl_eval(1) [where e = 5 and n = 6093933245785702]) (simp_all add: roundHalfEven_def)

lemma weekly_10:
  "specTotals weeklyTen = \<lparr>daily = fl (143 / 100), monthly = fl (433 / 10), yearly = Num 520\<rparr>"
proof -
  have d: "foldl jadd (Num 0) (map toDaily (filter counted weeklyTen))
             = Num (6433713753386423 / 4503599627370496)"
    by (simp add: weeklyTen_def counted_def knownFrequency_def toDaily_def orZero_def truthy_def
          jdiv_def fl_10_7 fl_keep)
  have m: "foldl jadd (Num 0) (map toMonthly (filter counted weeklyTen))
             = Num (3046966622892851 / 70368744177664)"
    using fl_10_433
    by (simp add: weeklyTen_def counted_def knownFrequency_def toMonthly_def orZero_def truthy_def
          jmul_def fl_433 fl_keep)
  have y: "foldl jadd (Num 0) (map toYearly (filter counted weeklyTen)) = Num 520"
    by (simp add: weeklyTen_def counted_def knownFrequency_def toYearly_def orZero_def truthy_def
          jmul_def)
  show ?thesis
    by (simp add: specTotals_def d m y roundCents_def)
qed

lemma mixed_costs:
  "specTotals mixedCosts = \<lparr>daily = fl (29 / 100), monthly = fl (433 / 50), yearly = Num 104\<rparr>"
proof -
  have c: "filter counted mixedCosts
             = [\<lparr>description = ''newsletter'', amount = Num 1, frequency = ''weekly'', active = True\<rparr>,
                \<lparr>description = ''hosting'', amount = Num 1, frequency = ''weekly'', active = True\<rparr>]"
    by (simp add: mixedCosts_def counted_def knownFrequency_def)
  have d: "foldl jadd (Num 0) (map toDaily (filter counted mixedCosts))
             = Num (2573485501354569 / 9007199254740992)"
    by (simp add: c toDaily_def orZero_def truthy_def jdiv_def fl_1_7 fl_keep)
  have m: "foldl jadd (Num 0) (map toMonthly (filter counted mixedCosts))
             = Num (2437573298314281 / 281474976710656)"
    by (simp add: c toMonthly_def orZero_def truthy_def jmul_def fl_433 fl_keep)
  have y: "foldl jadd (Num 0) (map toYearly (filter counted mixedCosts)) = Num 104"
    by (simp add: c toYearly_def orZero_def truthy_def jmul_def)
  show ?thesis
    by (simp add: specTotals_def d m y roundCents_def)
qed

text \<open>
  C6. For every list of fixed-cost entries, \<open>calculateTotals\<close> returns the totals of the
  conversion table: each active entry with a frequency among daily, weekly, monthly and yearly
  is converted (daily: 1, 30, 365; weekly: /7, 4.33, 52; monthly: /30, 1, 12; yearly: /365,
  /12, 1), the converted amounts are summed unrounded, each of the three sums is rounded to
  two fraction digits once (\<open>roundCents\<close>), and every other entry is left out. One active
  entry of 300 with frequency monthly gives daily 10, monthly 300 and yearly 3600. One weekly
  entry of 10 gives daily 1.43 (from 1.4285714285714286), monthly 43.3 and yearly 520. Two
  weekly entries of 1, next to an inactive entry and an entry of frequency quarterly, give
  daily 0.29 (from 0.2857142857142857; rounding each entry would give 0.28), monthly 8.66 and
  yearly 104.
\<close>

theorem fixed_cost_totals:
  "calculateTotals costs =
     \<lparr>daily = roundCents (foldl jadd (Num 0) (map toDaily (filter counted costs))),
      monthly = roundCents (foldl jadd (Num 0) (map toMonthly (filter counted costs))),
      yearly = roundCents (foldl jadd (Num 0) (map toYearly (filter counted costs)))\<rparr>
   \<and> calculateTotals [\<lparr>description = d, amount = Num 300, frequency = ''monthly'', active = True\<rparr>]
       = \<lparr>daily = Num 10, monthly = Num 300, yearly = Num 3600\<rparr>
   \<and> calculateTotals weeklyTen = \<lparr>daily = fl (143 / 100), monthly = fl (433 / 10), yearly = Num 520\<rparr>
   \<and> calculateTotals mixedCosts = \<lparr>daily = fl (29 / 100), monthly = fl (433 / 50), yearly = Num 104\<rparr>"
proof -
  have "calculateTotals costs =
     \<lparr>daily = roundCents (foldl jadd (Num 0) (map toDaily (filter counted costs))),
      monthly = roundCents (foldl jadd (Num 0) (map toMonthly (filter counted costs))),
      yearly = roundCents (foldl jadd (Num 0) (map toYearly (filter counted costs)))\<rparr>"
    by (simp add: totals_table specTotals_def)
  moreover have "calculateTotals weeklyTen
       = \<lparr>daily = fl (143 / 100), monthly = fl (433 / 10), yearly = Num 520\<rparr>"
    by (simp only: totals_table weekly_10)
  moreover have "calculateTotals mixedCosts
       = \<lparr>daily = fl (29 / 100), monthly = fl (433 / 50), yearly = Num 104\<rparr>"
    by (simp only: totals_table mixed_costs)
  ultimately show ?thesis
    using monthly_300 [of d] by blast
qed

section \<open>Per-order fees\<close>


section \<open>Gateway normalization\<close>

lemma map_of_mappings_None:
  "map_of mappings k = None \<longleftrightarrow> k \<notin> set (map fst mappings)"
  by (simp add: map_of_eq_None_iff)

lemma orderGateway_nonempty: "orderGateway ord \<noteq> ''''"
  by (simp add: orderGateway_def split: list.splits)

lemma canonical_fixed:
  "normalizeGatewayName ''shopify_payments'' = Name ''shopify_payments''"
  "normalizeGatewayName ''stripe'' = Name ''stripe''"
  "normalizeGatewayName ''paypal'' = Name ''paypal''"
  "normalizeGatewayName ''mercadopago'' = Name ''mercadopago''"
  by (simp_all add: normalizeGatewayName_def stripNonLetters_def toLowerCase_def mappings_def)

lemma normalize_range:
  "g \<noteq> '''' \<Longrightarrow>
   normalizeGatewayName g \<in> {Name ''shopify_payments'', Name ''stripe'', Name ''paypal'',
       Name ''mercadopago'', ObjectConstructor}"
  by (auto simp: normalizeGatewayName_def Let_def mappings_def split: option.splits if_splits)

text \<open>The keys of the fee breakdown are the normalized gateways of the orders.\<close>

lemma feeStep_keys:
  "fst ` set (fst (feeStep acc ord))
     = insert (propertyKey (normalizeGatewayName (orderGateway ord))) (fst ` set (fst acc))"
  by (cases acc) (simp add: feeStep_def Let_def dom_update)

lemma fee_loop_keys:
  "fst ` set (fst (foldl feeStep acc orders))
     = fst ` set (fst acc) \<union> (\<lambda>ord. propertyKey (normalizeGatewayName (orderGateway ord))) ` set orders"
proof (induction orders arbitrary: acc)
  case Nil
  show ?case by simp
next
  case (Cons ord orders)
  show ?case
    by (simp add: Cons.IH feeStep_keys)
qed

lemma breakdown_keys:
  "fst ` set (snd (calculateTotalFees orders))
     = (\<lambda>ord. propertyKey (normalizeGatewayName (orderGateway ord))) ` set orders"
proof -
  obtain b t where f: "foldl feeStep ([], Num 0) orders = (b, t)"
    by (cases "foldl feeStep ([], Num 0) orders")
  have "fst ` set b = (\<lambda>ord. propertyKey (normalizeGatewayName (orderGateway ord))) ` set orders"
    using fee_loop_keys [of "([], Num 0)" orders] f by simp
  moreover have "fst ` set (snd (calculateTotalFees orders)) = fst ` set b"
    by (force simp: calculateTotalFees_def f)
  ultimately show ?thesis by simp
qed

lemma key_not_unknown: "g \<noteq> '''' \<Longrightarrow> propertyKey (normalizeGatewayName g) \<noteq> ''unknown''"
  using normalize_range [of g] by (auto simp: propertyKey_def)

lemma no_unknown_bucket: "''unknown'' \<notin> fst ` set (snd (calculateTotalFees orders))"
proof
  assume "''unknown'' \<in> fst ` set (snd (calculateTotalFees orders))"
  then obtain ord where "''unknown'' = propertyKey (normalizeGatewayName (orderGateway ord))"
    by (auto simp: breakdown_keys)
  then show False
    using key_not_unknown [OF orderGateway_nonempty, of ord] by simp
qed

text \<open>
  Counterexample to C8 as stated: the empty (or absent) gateway name is not a known alias,
  and it is normalized to \<open>unknown\<close>, not to \<open>shopify_payments\<close>.
\<close>

theorem empty_gateway_counterexample:
  "\<not> gatewayAlias '''' \<and> normalizeGatewayName '''' = Name ''unknown''
   \<and> normalizeGatewayName '''' \<noteq> Name ''shopify_payments''"
  by (simp add: normalizeGatewayName_def gatewayAlias_def stripNonLetters_def toLowerCase_def
        mappings_def)

text \<open>
  C8, amended. Every non-empty gateway name that is not a known alias, and whose normalized
  form is not \<open>constructor\<close>, is normalized to \<open>shopify_payments\<close>; the empty or absent name is
  normalized to \<open>unknown\<close>. In \<open>calculateTotalFees\<close> an order without a gateway name is given
  the name \<open>shopify_payments\<close> before normalization, so the fee breakdown never has a bucket
  \<open>unknown\<close>.
\<close>

theorem unknown_gateway_default:
  "g \<noteq> '''' \<Longrightarrow> \<not> gatewayAlias g \<Longrightarrow> stripNonLetters (toLowerCase g) \<noteq> ''constructor'' \<Longrightarrow>
     normalizeGatewayName g = Name ''shopify_payments''
   \<and> normalizeGatewayName '''' = Name ''unknown''
   \<and> ''unknown'' \<notin> fst ` set (snd (calculateTotalFees orders))"
proof -
  assume n: "g \<noteq> ''''" and a: "\<not> gatewayAlias g"
    and c: "stripNonLetters (toLowerCase g) \<noteq> ''constructor''"
  have "map_of mappings (stripNonLetters (toLowerCase g)) = None"
    using a by (simp add: map_of_mappings_None gatewayAlias_def)
  then have "normalizeGatewayName g = Name ''shopify_payments''"
    using n c by (simp add: normalizeGatewayName_def Let_def)
  moreover have "normalizeGatewayName '''' = Name ''unknown''"
    by (simp add: normalizeGatewayName_def)
  ultimately show ?thesis
    using no_unknown_bucket [of orders] by simp
qed

text \<open>Witness for C8: the name \<open>Bogus Pay\<close>.\<close>

theorem unknown_gateway_default_witness:
  "''Bogus Pay'' \<noteq> '''' \<and> \<not> gatewayAlias ''Bogus Pay''
   \<and> stripNonLetters (toLowerCase ''Bogus Pay'') \<noteq> ''constructor''
   \<and> normalizeGatewayName ''Bogus Pay'' = Name ''shopify_payments''"
proof -
  have a: "\<not> gatewayAlias ''Bogus Pay''"
    by (simp add: gatewayAlias_def stripNonLetters_def toLowerCase_def mappings_def)
  have c: "stripNonLetters (toLowerCase ''Bogus Pay'') \<noteq> ''constructor''"
    by (simp add: stripNonLetters_def toLowerCase_def)
  have n: "''Bogus Pay'' \<noteq> ''''" by simp
  show ?thesis
    using unknown_gateway_default [OF n a c] a c by simp
qed

text \<open>Away from the one name \<open>constructor\<close>, normalizing twice is normalizing once.\<close>

lemma normalize_idempotent_except_constructor:
  assumes "g \<noteq> ''''" "stripNonLetters (toLowerCase g) \<noteq> ''constructor''"
  shows "normalizeAgain (normalizeGatewayName g) = Inr (normalizeGatewayName g)"
proof -
  have "normalizeGatewayName g \<noteq> ObjectConstructor"
    using assms by (simp add: normalizeGatewayName_def Let_def split: option.splits)
  with normalize_range [OF assms(1)] show ?thesis
    by (auto simp: normalizeAgain_def canonical_fixed)
qed

text \<open>
  C10. The gateway name \<open>constructor\<close> is non-empty, yet its normalization is not a name but
  the function \<open>Object\<close> found through the prototype of the alias table, and normalizing that
  result again throws a \<open>TypeError\<close>: normalization is not idempotent at this name.
\<close>

theorem constructor_gateway_not_idempotent:
  "normalizeGatewayName ''constructor'' = ObjectConstructor
   \<and> normalizeAgain (normalizeGatewayName ''constructor'')
       = Inl ''TypeError: gateway.toLowerCase is not a function''"
  by (simp add: normalizeGatewayName_def normalizeAgain_def stripNonLetters_def toLowerCase_def
        mappings_def)

section \<open>Inverted ranges\<close>

lemma queryDays_inverted: "endD < startD \<Longrightarrow> queryDays st shopDomain startD endD = []"
proof -
  assume inv: "endD < startD"
  have "\<And>x. \<not> (startD \<le> x \<and> x \<le> endD)"
    using inv by (meson leD order_trans)
  then have "filter (\<lambda>(k, d). fst k = shopDomain \<and> startD \<le> date (doc d) \<and> date (doc d) \<le> endD)
               (days st) = []"
    by (simp add: filter_empty_conv split_beta)
  then show ?thesis by (simp add: queryDays_def)
qed

lemma empty_range_totals:
  "daysCount (aggregate startD endD []) = 0"
  "totals (aggregate startD endD [])
     = \<lparr>t_revenue = ''0.00'', t_cogs = ''0.00'', t_adSpend = ''0.00'', t_fees = ''0.00'',
        t_fixedCosts = ''0.00'', t_netProfit = ''0.00'', t_profitMargin = ''0.0'',
        t_orderCount = 0, t_isProfitable = True\<rparr>"
  by (simp_all add: aggregate_def Let_def jgt_def jge_def toFixed_def digitsOf.simps digitChar_def)

text \<open>
  Counterexample to C9 as stated: the request from 3 January back to 1 January 2024, both
  dates well formed, is not rejected; the query is issued against the report store and an
  empty summary is returned.
\<close>

theorem inverted_range_counterexample:
  "isValidDate ''2024-01-03'' \<and> isValidDate ''2024-01-01'' \<and> ''2024-01-01'' < ''2024-01-03''
   \<and> calculateProfitRange lossEnv sampleStore (Some ''a.myshopify.com'') ''2024-01-03'' ''2024-01-01''
       = (Inr (aggregate ''2024-01-03'' ''2024-01-01'' []),
          sampleStore\<lparr>ops := ops sampleStore
             @ [QueryDays ''a.myshopify.com'' ''2024-01-03'' ''2024-01-01'']\<rparr>)"
proof -
  have f: "dailyMetricsFault lossEnv = None" by (simp add: lossEnv_def)
  have i: "''2024-01-01'' < ''2024-01-03''" by (simp add: less_char_def)
  show ?thesis
    using range_reads_store [OF sample_dates(3) sample_dates(1) f, of sampleStore "''a.myshopify.com''"]
      queryDays_inverted [OF i, of sampleStore "''a.myshopify.com''"] sample_dates i
    by simp
qed

text \<open>
  C9, amended. A range request whose two dates are well formed is never rejected for being
  inverted: when \<open>startDate\<close> is greater than \<open>endDate\<close> the query is still issued against the
  report store, it finds no report, and the call returns a summary with \<open>daysCount\<close> 0 and
  all totals zero.
\<close>

theorem inverted_range_not_rejected:
  "isValidDate startD \<Longrightarrow> isValidDate endD \<Longrightarrow> endD < startD \<Longrightarrow> dailyMetricsFault e = None \<Longrightarrow>
     calculateProfitRange e st (Some shopDomain) startD endD
       = (Inr (aggregate startD endD []), st\<lparr>ops := ops st @ [QueryDays shopDomain startD endD]\<rparr>)
   \<and> daysCount (aggregate startD endD []) = 0
   \<and> totals (aggregate startD endD [])
       = \<lparr>t_revenue = ''0.00'', t_cogs = ''0.00'', t_adSpend = ''0.00'', t_fees = ''0.00'',
          t_fixedCosts = ''0.00'', t_netProfit = ''0.00'', t_profitMargin = ''0.0'',
          t_orderCount = 0, t_isProfitable = True\<rparr>"
  using range_reads_store [of startD endD e st shopDomain]
    queryDays_inverted [of endD startD st shopDomain]
  by (simp add: empty_range_totals)

text \<open>Witness for C9: the request from 3 January back to 1 January 2024 on \<open>sampleStore\<close>.\<close>

theorem inverted_range_not_rejected_witness:
  "isValidDate ''2024-01-03'' \<and> isValidDate ''2024-01-01'' \<and> ''2024-01-01'' < ''2024-01-03''
   \<and> dailyMetricsFault lossEnv = None
   \<and> fst (calculateProfitRange lossEnv sampleStore (Some ''a.myshopify.com'') ''2024-01-03''
            ''2024-01-01'') = Inr (aggregate ''2024-01-03'' ''2024-01-01'' [])
   \<and> daysCount (aggregate ''2024-01-03'' ''2024-01-01'' []) = 0"
proof -
  have f: "dailyMetricsFault lossEnv = None" by (simp add: lossEnv_def)
  have i: "''2024-01-01'' < ''2024-01-03''" by (simp add: less_char_def)
  show ?thesis
    using inverted_range_not_rejected [OF sample_dates(3) sample_dates(1) i f,
        of sampleStore "''a.myshopify.com''"] sample_dates i f
    by simp
qed

end
